theory Spec2Isabelle
  imports Main "HOL-Library.Sublist" "HOL-Library.Word"
begin

section \<open>Failures\<close>

text \<open>
  The Go code fails in three ways, and each is a value of the model: an \<open>error\<close> handed
  back to the caller, a run-time panic (index out of range, nil dereference, failed type
  assertion), and \<open>log.Fatalf\<close>, which ends the process.
\<close>

datatype error =
    Err string
  | Panic string
  | Fatal string

section \<open>Cache pool (cache\_pool.go)\<close>

text \<open>
  \<open>RowCacheConfig\<close> as the struct declares it. Go's \<open>int\<close> is modelled as \<open>int\<close>: the only
  arithmetic on it is \<open>Connections - 50\<close> under the guard \<open>Connections > 50\<close>, which cannot
  leave the machine range.
\<close>

record RowCacheConfig =
  Binary :: string
  Memory :: int
  Socket :: string
  TcpPort :: int
  Connections :: int
  Threads :: int
  LockPaged :: bool

definition zeroConfig :: RowCacheConfig where
  "zeroConfig = \<lparr>Binary = [], Memory = 0, Socket = [], TcpPort = 0, Connections = 0,
     Threads = 0, LockPaged = False\<rparr>"

text \<open>\<open>time.Duration\<close> is an int64 count of nanoseconds; \<open>sint\<close> reads it.\<close>

type_synonym Duration = "64 word"

definition Second :: int where
  "Second = 1000000000"

text \<open>Go's integer division truncates towards zero.\<close>

definition quo :: "int \<Rightarrow> int \<Rightarrow> int" where
  "quo a b = sgn a * sgn b * (\<bar>a\<bar> div \<bar>b\<bar>)"

text \<open>\<open>strconv.Itoa\<close>: the decimal digits of an integer.\<close>

function utoa :: "nat \<Rightarrow> string" where
  "utoa n = (if n < 10 then [char_of (48 + n)] else utoa (n div 10) @ [char_of (48 + n mod 10)])"
  by pat_completeness auto
termination
  by (relation "measure id") auto

definition Itoa :: "int \<Rightarrow> string" where
  "Itoa i = (if i < 0 then CHR ''-'' # utoa (nat (- i)) else utoa (nat i))"

text \<open>
  Modelled from the spec: the generic resource pool (package \<open>pools\<close>) is an external
  collaborator, \<open>New(factory, capacity, maxCap, idleTimeout)\<close>. The model keeps what the
  constructor is given; \<open>pool.Capacity()\<close> reads the capacity back.
\<close>

record ResourcePool =
  rp_capacity :: int
  rp_maxCap :: int
  rp_idleTimeout :: Duration

definition NewResourcePool :: "int \<Rightarrow> int \<Rightarrow> Duration \<Rightarrow> ResourcePool" where
  "NewResourcePool c m t = \<lparr>rp_capacity = c, rp_maxCap = m, rp_idleTimeout = t\<rparr>"

text \<open>
  \<open>CachePool\<close>: the fields that carry data. The child-process handle, the stats handle and
  the mutex are left out; \<open>pool = None\<close> is the nil pool handle.
\<close>

record CachePool =
  name :: string
  pool :: "ResourcePool option"
  rowCacheConfig :: RowCacheConfig
  capacity :: int
  port :: string
  idleTimeout :: Duration
  DeleteExpiry :: "64 word"

definition NewCachePool ::
    "string \<Rightarrow> RowCacheConfig \<Rightarrow> Duration \<Rightarrow> Duration \<Rightarrow> error + CachePool" where
  "NewCachePool nm cfg queryTimeout idle =
    (let cp = \<lparr>name = nm, pool = None, rowCacheConfig = zeroConfig, capacity = 0,
                port = [], idleTimeout = idle, DeleteExpiry = 0\<rparr>
     in if Binary cfg = [] then Inr cp
        else
          let cp = cp\<lparr>rowCacheConfig := cfg\<rparr>;
              cp = cp\<lparr>capacity := 1024 - 50\<rparr>;
              cp = cp\<lparr>port := ''11211''\<rparr>;
              cp = (if Socket cfg \<noteq> [] then cp\<lparr>port := Socket cfg\<rparr> else cp);
              cp = (if TcpPort cfg > 0 then cp\<lparr>port := '':'' @ Itoa (TcpPort cfg)\<rparr> else cp)
          in if Connections cfg > 0 \<and> Connections cfg \<le> 50
             then Inl (Fatal (''insufficient capacity: '' @ Itoa (Connections cfg)))
             else
               let cp = (if Connections cfg > 0
                         then cp\<lparr>capacity := Connections cfg - 50\<rparr> else cp);
                   seconds = (word_of_int (quo (sint queryTimeout) Second) :: 64 word);
                   cp = (if seconds \<noteq> 0 then cp\<lparr>DeleteExpiry := 2 * seconds + 15\<rparr> else cp)
               in Inr cp)"

text \<open>
  \<open>Open\<close>. Starting and probing the memcached child is outside the model: its outcome is
  the argument \<open>started\<close> (\<open>None\<close> when the probe succeeded, the fatal error otherwise).
\<close>

definition Open :: "error option \<Rightarrow> CachePool \<Rightarrow> error + CachePool" where
  "Open started cp =
    (if pool cp \<noteq> None then Inl (Panic ''rowcache is already open'')
     else if Binary (rowCacheConfig cp) = [] then Inl (Panic ''rowcache binary not specified'')
     else case started of
            Some e \<Rightarrow> Inl e
          | None \<Rightarrow>
              Inr (cp\<lparr>pool := Some (NewResourcePool (capacity cp) (capacity cp) (idleTimeout cp))\<rparr>))"

definition IsClosed :: "CachePool \<Rightarrow> bool" where
  "IsClosed cp = (pool cp = None)"

definition Capacity :: "CachePool \<Rightarrow> int" where
  "Capacity cp = (case pool cp of None \<Rightarrow> 0 | Some p \<Rightarrow> rp_capacity p)"

text \<open>\<open>GetMaxPrefix\<close>: the process-wide counter, threaded through as a value.\<close>

definition GetMaxPrefix :: "int \<Rightarrow> int \<times> int" where
  "GetMaxPrefix maxPrefix = (maxPrefix + 1, maxPrefix + 1)"

section \<open>Schema model (package schema)\<close>

text \<open>
  Modelled from the spec: the declarations of package \<open>schema\<close> (\<open>Table\<close>, \<open>TableColumn\<close>,
  \<open>Index\<close> and their small methods) are not among the source files. The spec's data model
  gives them: a column has a name, a category in \<open>{number, varbinary, other}\<close>, a nullable
  default value and a modifier; an index has a name, its ordered column names, the
  cardinalities parallel to them, and \<open>DataColumns\<close>; a table has a name, its ordered
  columns, its ordered indexes, \<open>PKColumns\<close> (positions into the column list) and a
  \<open>CacheType\<close> in \<open>{none, read-write}\<close>.

  \<open>PKColumns\<close> is an option because the code tests it against nil: \<open>None\<close> is the nil
  slice, \<open>Some []\<close> an allocated slice of length 0. The string slices are only ever
  ranged over and appended to, where nil and empty behave alike, so they are plain lists.
\<close>

datatype Category = CAT_OTHER | CAT_NUMBER | CAT_VARBINARY

datatype CacheKind = CACHE_NONE | CACHE_RW

type_synonym Value = "string option"

record TableColumn =
  ColName :: string
  Category :: Category
  Default :: Value
  Modifier :: string

record Index =
  IdxName :: string
  IdxColumns :: "string list"
  Cardinality :: "nat list"
  DataColumns :: "string list"

record Table =
  Name :: string
  Columns :: "TableColumn list"
  Indexes :: "Index list"
  PKColumns :: "int list option"
  CacheType :: CacheKind

text \<open>
  Modelled from the spec: \<open>FindColumn\<close> and \<open>FindDataColumn\<close> return the position of a
  name, and its callers in table\_info.go compare the result with \<open>-1\<close> for an unknown name.
  \<open>findFrom i nm xs\<close> is the loop \<open>for i, x := range xs { if x == nm { return i } }; return -1\<close>.
\<close>

fun findFrom :: "int \<Rightarrow> string \<Rightarrow> string list \<Rightarrow> int" where
  "findFrom i nm [] = - 1"
| "findFrom i nm (x # xs) = (if x = nm then i else findFrom (i + 1) nm xs)"

definition FindColumn :: "'a Table_scheme \<Rightarrow> string \<Rightarrow> int" where
  "FindColumn ta nm = findFrom 0 nm (map ColName (Columns ta))"

definition FindDataColumn :: "Index \<Rightarrow> string \<Rightarrow> int" where
  "FindDataColumn idx nm = findFrom 0 nm (DataColumns idx)"

text \<open>
  Modelled from the spec: \<open>NewIndex\<close>, \<open>Index.AddColumn\<close>, \<open>Table.AddIndex\<close> and
  \<open>Table.AddColumn\<close>. An index starts with no columns and records, for each column, its
  name and cardinality; \<open>AddIndex\<close> appends a new index to the table's list. The mapping
  from the SQL type string to a category is the parameter \<open>typeCategory\<close> below.
\<close>

definition NewIndex :: "string \<Rightarrow> Index" where
  "NewIndex nm = \<lparr>IdxName = nm, IdxColumns = [], Cardinality = [], DataColumns = []\<rparr>"

definition Index_AddColumn :: "Index \<Rightarrow> string \<Rightarrow> nat \<Rightarrow> Index" where
  "Index_AddColumn idx nm cardinality =
     idx\<lparr>IdxColumns := IdxColumns idx @ [nm], Cardinality := Cardinality idx @ [cardinality]\<rparr>"

definition AddIndex :: "'a Table_scheme \<Rightarrow> string \<Rightarrow> 'a Table_scheme" where
  "AddIndex ta nm = ta\<lparr>Indexes := Indexes ta @ [NewIndex nm]\<rparr>"

text \<open>
  What the code takes from other packages, as parameters: \<open>sqltypes.BuildValue\<close>, the
  category of a SQL type string, and the value \<open>strconv.ParseUint\<close> hands back (the code
  keeps it also when parsing fails, after a warning).
\<close>

type_synonym cell = "string option"

record Externals =
  BuildValue :: "cell \<Rightarrow> error + Value"
  typeCategory :: "string \<Rightarrow> Category"
  ParseUint :: "string \<Rightarrow> nat"

definition AddColumn ::
    "Externals \<Rightarrow> 'a Table_scheme \<Rightarrow> string \<Rightarrow> string \<Rightarrow> Value \<Rightarrow> string \<Rightarrow> 'a Table_scheme" where
  "AddColumn ex ta nm columnType defval extra =
     ta\<lparr>Columns := Columns ta @
       [\<lparr>ColName = nm, Category = typeCategory ex columnType, Default = defval, Modifier = extra\<rparr>]\<rparr>"

section \<open>Table info (table\_info.go)\<close>

text \<open>
  A result row of the driver is a list of cells; a cell is nil (\<open>None\<close>) or a byte slice.
  \<open>row[i]\<close> panics beyond the row's length and \<open>row[i].([]byte)\<close> panics on nil.
\<close>

definition andThen :: "error + 'a \<Rightarrow> ('a \<Rightarrow> error + 'b) \<Rightarrow> error + 'b" where
  "andThen r f = (case r of Inl e \<Rightarrow> Inl e | Inr v \<Rightarrow> f v)"

definition at :: "'a list \<Rightarrow> nat \<Rightarrow> error + 'a" where
  "at xs i = (if i < length xs then Inr (xs ! i) else Inl (Panic ''index out of range''))"

definition bytesAt :: "cell list \<Rightarrow> nat \<Rightarrow> error + string" where
  "bytesAt row i =
     andThen (at row i) (\<lambda>c. case c of None \<Rightarrow> Inl (Panic ''interface conversion'') | Some b \<Rightarrow> Inr b)"

record RowCache =
  rc_prefix :: int

record TableInfo = Table +
  Cache :: "RowCache option"
  hits :: int
  absent :: int
  misses :: int
  invalidations :: int

text \<open>
  \<open>fetchColumns\<close>. The first argument of the loop is the result of
  \<open>conn.Execute("describe ...")\<close>. \<open>errors.Trace\<close> only annotates the error.
\<close>

fun fetchColumns_loop :: "Externals \<Rightarrow> cell list list \<Rightarrow> TableInfo \<Rightarrow> error + TableInfo" where
  "fetchColumns_loop ex [] ti = Inr ti"
| "fetchColumns_loop ex (row # rows) ti =
     (case andThen (at row 4) (\<lambda>c4.
             andThen (BuildValue ex c4) (\<lambda>v.
             andThen (bytesAt row 0) (\<lambda>field.
             andThen (bytesAt row 1) (\<lambda>typ.
             andThen (bytesAt row 5) (\<lambda>extra.
               Inr (AddColumn ex ti field typ v extra)))))) of
        Inl e \<Rightarrow> Inl e
      | Inr ti' \<Rightarrow> fetchColumns_loop ex rows ti')"

definition fetchColumns :: "Externals \<Rightarrow> error + cell list list \<Rightarrow> TableInfo \<Rightarrow> error + TableInfo" where
  "fetchColumns ex columns ti =
     (case columns of Inl err \<Rightarrow> Inl err | Inr rows \<Rightarrow> fetchColumns_loop ex rows ti)"

text \<open>
  \<open>fetchIndexes\<close>, first loop. \<open>currentIndex\<close> is a pointer to the index last added, or
  nil: here the position of that index in \<open>ti.Indexes\<close>, or \<open>None\<close>. Calling \<open>AddColumn\<close>
  through the nil pointer panics.
\<close>

definition fetchIndexes_row ::
    "Externals \<Rightarrow> cell list \<Rightarrow> nat option \<times> string \<times> TableInfo \<Rightarrow> error + (nat option \<times> string \<times> TableInfo)" where
  "fetchIndexes_row ex row st =
     (case st of (currentIndex, currentName, ti) \<Rightarrow>
       andThen (bytesAt row 2) (\<lambda>indexName.
         let (currentIndex, ti) =
               (if currentName \<noteq> indexName
                then (Some (length (Indexes ti)), AddIndex ti indexName)
                else (currentIndex, ti))
         in andThen (at row 6) (\<lambda>c6.
              let cardinality = (case c6 of None \<Rightarrow> 0 | Some b \<Rightarrow> ParseUint ex b)
              in andThen (bytesAt row 4) (\<lambda>col.
                   case currentIndex of
                     None \<Rightarrow> Inl (Panic ''nil pointer dereference'')
                   | Some k \<Rightarrow>
                       Inr (Some k, indexName,
                            ti\<lparr>Indexes := (Indexes ti)
                                  [k := Index_AddColumn (Indexes ti ! k) col cardinality]\<rparr>)))))"

fun fetchIndexes_loop ::
    "Externals \<Rightarrow> cell list list \<Rightarrow> nat option \<times> string \<times> TableInfo \<Rightarrow> error + TableInfo" where
  "fetchIndexes_loop ex [] st = Inr (snd (snd st))"
| "fetchIndexes_loop ex (row # rows) st =
     (case fetchIndexes_row ex row st of
        Inl e \<Rightarrow> Inl e
      | Inr st' \<Rightarrow> fetchIndexes_loop ex rows st')"

text \<open>The inner loop of lines 131-138: append each PK column not yet in \<open>DataColumns\<close>.\<close>

fun addPKColumns :: "string list \<Rightarrow> Index \<Rightarrow> Index" where
  "addPKColumns [] idx = idx"
| "addPKColumns (c # cs) idx =
     (if FindDataColumn idx c \<noteq> - 1 then addPKColumns cs idx
      else addPKColumns cs (idx\<lparr>DataColumns := DataColumns idx @ [c]\<rparr>))"

text \<open>The body of the loop over \<open>i = 1 .. len(ti.Indexes) - 1\<close> (lines 127-139).\<close>

definition coverSecondary :: "string list \<Rightarrow> Index \<Rightarrow> Index" where
  "coverSecondary pkColumns idx =
     addPKColumns pkColumns (idx\<lparr>DataColumns := DataColumns idx @ IdxColumns idx\<rparr>)"

text \<open>
  Lines 114-139 of \<open>fetchIndexes\<close>, reached when the first index is named PRIMARY.
  \<open>pkIndex\<close> is a pointer to \<open>ti.Indexes[0]\<close>, so the append to its \<open>DataColumns\<close> is an
  update of slot 0; the loop over \<open>i = 1 .. len(ti.Indexes) - 1\<close> leaves slot 0 alone.
\<close>

definition finishIndexes :: "TableInfo \<Rightarrow> TableInfo" where
  "finishIndexes ti =
     (let pkIndex = Indexes ti ! 0;
          ti = ti\<lparr>PKColumns := Some (map (FindColumn ti) (IdxColumns pkIndex))\<rparr>;
          pkIndex = pkIndex\<lparr>DataColumns := DataColumns pkIndex @ map ColName (Columns ti)\<rparr>;
          ti = ti\<lparr>Indexes := (Indexes ti)[0 := pkIndex]\<rparr>;
          ti = ti\<lparr>Indexes := hd (Indexes ti) #
                      map (coverSecondary (IdxColumns pkIndex)) (tl (Indexes ti))\<rparr>
      in ti)"

definition fetchIndexes :: "Externals \<Rightarrow> error + cell list list \<Rightarrow> TableInfo \<Rightarrow> error + TableInfo" where
  "fetchIndexes ex indexes ti =
     (case indexes of
        Inl err \<Rightarrow> Inl err
      | Inr rows \<Rightarrow>
          andThen (fetchIndexes_loop ex rows (None, [], ti)) (\<lambda>ti.
            if length (Indexes ti) = 0 then Inr ti
            else if IdxName (Indexes ti ! 0) \<noteq> ''PRIMARY'' then Inr ti
            else Inr (finishIndexes ti)))"

text \<open>
  \<open>loadTableInfo\<close>. The connection is represented by what it answers to the two
  queries. \<open>schema.NewTable\<close> gives a table with no columns, no indexes, a nil
  \<open>PKColumns\<close> and the zero \<open>CacheType\<close>; the counters and \<open>Cache\<close> start at zero and nil.
\<close>

definition NewTableInfo0 :: "string \<Rightarrow> TableInfo" where
  "NewTableInfo0 tableName =
     \<lparr>Name = tableName, Columns = [], Indexes = [], PKColumns = None, CacheType = CACHE_NONE,
      Cache = None, hits = 0, absent = 0, misses = 0, invalidations = 0\<rparr>"

definition loadTableInfo ::
    "Externals \<Rightarrow> error + cell list list \<Rightarrow> error + cell list list \<Rightarrow> string \<Rightarrow> error + TableInfo" where
  "loadTableInfo ex columns indexes tableName =
     andThen (fetchColumns ex columns (NewTableInfo0 tableName)) (\<lambda>ti.
       fetchIndexes ex indexes ti)"

text \<open>
  The loop of lines 162-167 of \<open>initRowCache\<close>: \<open>Inr False\<close> when a PK column of category
  \<open>other\<close> is met, a panic when a position is outside \<open>ti.Columns\<close>.
\<close>

fun pkSupported :: "TableColumn list \<Rightarrow> int list \<Rightarrow> error + bool" where
  "pkSupported cols [] = Inr True"
| "pkSupported cols (col # rest) =
     (if col < 0 \<or> int (length cols) \<le> col then Inl (Panic ''index out of range'')
      else if Category (cols ! nat col) = CAT_OTHER then Inr False
      else pkSupported cols rest)"

text \<open>
  Modelled from the spec: \<open>NewRowCache\<close> is not among the source files; a row cache draws
  its key prefix from the process-wide counter at construction.
\<close>

definition NewRowCache :: "int \<Rightarrow> RowCache \<times> int" where
  "NewRowCache maxPrefix = (case GetMaxPrefix maxPrefix of (p, m) \<Rightarrow> (\<lparr>rc_prefix = p\<rparr>, m))"

text \<open>
  \<open>initRowCache\<close>. \<open>strings.Contains(comment, s)\<close> is \<open>sublist s comment\<close>. The result is
  the table info after the call and the counter.
\<close>

definition initRowCache ::
    "string \<Rightarrow> Value \<Rightarrow> string \<Rightarrow> CachePool \<Rightarrow> int \<Rightarrow> TableInfo \<Rightarrow> error + (TableInfo \<times> int)" where
  "initRowCache tableType createTime comment cachePool maxPrefix ti =
     (if IsClosed cachePool then Inr (ti, maxPrefix)
      else if sublist ''vtocc_nocache'' comment then Inr (ti, maxPrefix)
      else if tableType = ''VIEW'' then Inr (ti, maxPrefix)
      else case PKColumns ti of
             None \<Rightarrow> Inr (ti, maxPrefix)
           | Some pk \<Rightarrow>
               andThen (pkSupported (Columns ti) pk) (\<lambda>supported.
                 if \<not> supported then Inr (ti, maxPrefix)
                 else
                   let ti = ti\<lparr>CacheType := CACHE_RW\<rparr>;
                       (rc, maxPrefix) = NewRowCache maxPrefix
                   in Inr (ti\<lparr>Cache := Some rc\<rparr>, maxPrefix)))"

definition NewTableInfo ::
    "Externals \<Rightarrow> error + cell list list \<Rightarrow> error + cell list list \<Rightarrow> string \<Rightarrow> string \<Rightarrow> Value \<Rightarrow>
     string \<Rightarrow> CachePool \<Rightarrow> int \<Rightarrow> error + (TableInfo \<times> int)" where
  "NewTableInfo ex columns indexes tableName tableType createTime comment cachePool maxPrefix =
     andThen (loadTableInfo ex columns indexes tableName) (\<lambda>ti.
       initRowCache tableType createTime comment cachePool maxPrefix ti)"

text \<open>
  \<open>SetPK\<close>. The first loop fills \<open>colnums\<close> and the new index, and returns the error at the
  first unknown name; nothing of \<open>ti\<close> has been written by then.
\<close>

fun SetPK_loop :: "TableInfo \<Rightarrow> string list \<Rightarrow> int list \<times> Index \<Rightarrow> error + (int list \<times> Index)" where
  "SetPK_loop ti [] st = Inr st"
| "SetPK_loop ti (colname # rest) st =
     (let n = FindColumn ti colname
      in if n = - 1 then Inl (Err (''column '' @ colname @ '' not found''))
         else SetPK_loop ti rest (fst st @ [n], Index_AddColumn (snd st) colname 1))"

text \<open>
  The three cases of lines 78-83 prepare the slice whose slot 0 is then overwritten:
  a fresh slice of length 1 (its nil slot is written here as the new index already); the
  old slice grown by one and copied one place up (slot 0 still holds the old first index);
  or the slice as it is.
\<close>

definition SetPK :: "string list \<Rightarrow> TableInfo \<Rightarrow> error + TableInfo" where
  "SetPK colnames ti =
     andThen (SetPK_loop ti colnames ([], NewIndex ''PRIMARY'')) (\<lambda>(colnums, pkIndex).
       let pkIndex = pkIndex\<lparr>DataColumns := DataColumns pkIndex @ map ColName (Columns ti)\<rparr>;
           slots = (if length (Indexes ti) = 0 then [pkIndex]
                    else if IdxName (Indexes ti ! 0) \<noteq> ''PRIMARY''
                    then Indexes ti ! 0 # Indexes ti
                    else Indexes ti);
           ti = ti\<lparr>Indexes := slots[0 := pkIndex]\<rparr>
       in Inr (ti\<lparr>PKColumns := Some colnums\<rparr>))"

section \<open>SQL syntax tree and tracked buffer (package sqlparser)\<close>

text \<open>
  Modelled from the spec: package \<open>sqlparser\<close> is not among the source files. The spec
  takes the parser as a collaborator that produces AST nodes with a \<open>Format(buf)\<close> reprint
  method, and the tracked buffer as what turns the reprint into a \<open>ParsedQuery\<close>: the
  rewritten SQL text with the places of its bind variables. The buffer is the text written
  so far and the bind locations (offset, length) recorded by \<open>WriteArg\<close>.
\<close>

record TrackedBuffer =
  Buffer :: string
  bindLocations :: "(nat \<times> nat) list"

definition WriteString :: "string \<Rightarrow> TrackedBuffer \<Rightarrow> TrackedBuffer" where
  "WriteString s buf = buf\<lparr>Buffer := Buffer buf @ s\<rparr>"

definition WriteArg :: "string \<Rightarrow> TrackedBuffer \<Rightarrow> TrackedBuffer" where
  "WriteArg arg buf =
     WriteString arg (buf\<lparr>bindLocations := bindLocations buf @ [(length (Buffer buf), length arg)]\<rparr>)"

definition HasBindVars :: "TrackedBuffer \<Rightarrow> bool" where
  "HasBindVars buf = (bindLocations buf \<noteq> [])"

record ParsedQuery =
  Query :: string
  BindLocations :: "(nat \<times> nat) list"

definition NewTrackedBuffer :: TrackedBuffer where
  "NewTrackedBuffer = \<lparr>Buffer = [], bindLocations = []\<rparr>"

definition ParsedQuery_of :: "TrackedBuffer \<Rightarrow> ParsedQuery" where
  "ParsedQuery_of buf = \<lparr>Query = Buffer buf, BindLocations = bindLocations buf\<rparr>"

text \<open>
  Modelled from the spec: the node types. generator.go and plan.go read, of a \<open>Select\<close>, the
  fields \<open>SelectExprs\<close>, \<open>From\<close> (a slice, indexed), \<open>Where\<close>, \<open>OrderBy\<close> and \<open>Limit\<close> (nil
  or a node); of a \<open>JoinTableExpr\<close>, \<open>LeftExpr\<close>, \<open>Join\<close> and \<open>RightExpr\<close>; of an
  \<open>AliasedTableExpr\<close>, \<open>Expr\<close> and \<open>Hints\<close>; they build \<open>IndexHints{Type, Indexes}\<close> and
  \<open>Limit{Rowcount: ValArg}\<close>, and they switch on the statement types \<open>Union\<close>, \<open>Select\<close>,
  \<open>Insert\<close>, \<open>Update\<close>, \<open>Delete\<close>, \<open>Set\<close>, \<open>DDL\<close> and \<open>Other\<close>. The remaining clauses of a
  \<open>Select\<close> (comments, distinct, group by, having, lock) complete the canonical reprint.
  Every node type these files do not look into is \<open>Node kind parts\<close>: its \<open>Format\<close> prints
  the parts in order, a part being literal text (\<open>Raw\<close>), a bind variable (\<open>ValArg\<close>) or
  another node. \<open>Union\<close> is written \<open>Union_stmt\<close>.
\<close>

datatype NodeKind = Insert | Update | Delete | Set | DDL | Other | GoType string

datatype SQLNode =
    Select (Comments: "string list") (Distinct: string) (SelectExprs: "SQLNode list")
           (From: "SQLNode list") (Where: "SQLNode option") (GroupBy: "SQLNode list")
           (Having: "SQLNode option") (OrderBy: "SQLNode list") (Limit: "SQLNode option")
           (Lock: string)
  | Union_stmt (UnionType: string) (Left: SQLNode) (Right: SQLNode)
  | JoinTableExpr (LeftExpr: SQLNode) (Join: string) (RightExpr: SQLNode) (On: "SQLNode option")
  | AliasedTableExpr (Expr: SQLNode) (As: "string option") (Hints: "SQLNode option")
  | IndexHints (HintType: string) (HintIndexes: "string list")
  | LimitNode (Offset: "SQLNode option") (Rowcount: SQLNode)
  | WhereNode (WhereType: string) (WhereExpr: SQLNode)
  | ValArg string
  | Raw string
  | Node NodeKind "SQLNode list"

text \<open>
  The buffer's \<open>nodeFormatter\<close> field: nil, or the callback \<open>FormatImpossible\<close>.
\<close>

datatype NodeFormatter = NoFormatter | UseFormatImpossible

definition AST_LEFT_JOIN :: string where "AST_LEFT_JOIN = ''left join''"
definition AST_RIGHT_JOIN :: string where "AST_RIGHT_JOIN = ''right join''"

text \<open>
  The loop of \<open>IndexHints.Format\<close>: the first name after the prefix \<open>(\<close>, the others after
  a comma.
\<close>

fun joinNames :: "string \<Rightarrow> string list \<Rightarrow> string" where
  "joinNames pre [] = []"
| "joinNames pre (n # ns) = pre @ n @ joinNames '', '' ns"

text \<open>
  \<open>Myprintf_v nf node buf\<close> is \<open>buf.Myprintf("%v", node)\<close> on a buffer whose formatter is
  \<open>nf\<close>: the node's own \<open>Format\<close> when there is no formatter, the callback otherwise.
  \<open>FormatImpossible\<close> is the function of generator.go. \<open>Format nf node buf\<close> is
  \<open>node.Format(buf)\<close> (modelled from the spec, as the canonical reprint); what it prints
  with \<open>%v\<close> goes through the formatter again. \<open>Format_seq\<close> is the \<open>Format\<close> of the slice
  types (a prefix before the first element, a separator before the others), \<open>Format_opt\<close>
  that of a pointer that may be nil.
\<close>

fun Myprintf_v :: "NodeFormatter \<Rightarrow> SQLNode \<Rightarrow> TrackedBuffer \<Rightarrow> TrackedBuffer"
and FormatImpossible :: "SQLNode \<Rightarrow> TrackedBuffer \<Rightarrow> TrackedBuffer"
and Format :: "NodeFormatter \<Rightarrow> SQLNode \<Rightarrow> TrackedBuffer \<Rightarrow> TrackedBuffer"
and Format_seq :: "NodeFormatter \<Rightarrow> string \<Rightarrow> string \<Rightarrow> SQLNode list \<Rightarrow> TrackedBuffer \<Rightarrow> TrackedBuffer"
and Format_opt :: "NodeFormatter \<Rightarrow> SQLNode option \<Rightarrow> TrackedBuffer \<Rightarrow> TrackedBuffer"
where
  "Myprintf_v NoFormatter node buf = Format NoFormatter node buf"
| "Myprintf_v UseFormatImpossible node buf = FormatImpossible node buf"

| "FormatImpossible (Select c d es fr w g h ob l lk) buf =
     (let buf = WriteString ''select '' buf;
          buf = Format_seq UseFormatImpossible [] '', '' es buf;
          buf = WriteString '' from '' buf;
          buf = Format_seq UseFormatImpossible [] '', '' fr buf
      in WriteString '' where 1 != 1'' buf)"
| "FormatImpossible (JoinTableExpr le j re on) buf =
     (let buf = Myprintf_v UseFormatImpossible le buf;
          buf = WriteString ('' '' @ j @ '' '') buf;
          buf = Myprintf_v UseFormatImpossible re buf
      in if j = AST_LEFT_JOIN \<or> j = AST_RIGHT_JOIN then WriteString '' on 1 != 1'' buf else buf)"
| "FormatImpossible node buf = Format UseFormatImpossible node buf"

| "Format nf (Select c d es fr w g h ob l lk) buf =
     (let buf = WriteString ''select '' buf;
          buf = WriteString (concat (map (\<lambda>x. x @ '' '') c)) buf;
          buf = WriteString d buf;
          buf = Format_seq nf [] '', '' es buf;
          buf = WriteString '' from '' buf;
          buf = Format_seq nf [] '', '' fr buf;
          buf = Format_opt nf w buf;
          buf = Format_seq nf '' group by '' '', '' g buf;
          buf = Format_opt nf h buf;
          buf = Format_seq nf '' order by '' '', '' ob buf;
          buf = Format_opt nf l buf
      in WriteString lk buf)"
| "Format nf (Union_stmt t l r) buf =
     (let buf = Myprintf_v nf l buf;
          buf = WriteString ('' '' @ t @ '' '') buf
      in Myprintf_v nf r buf)"
| "Format nf (JoinTableExpr le j re on) buf =
     (let buf = Myprintf_v nf le buf;
          buf = WriteString ('' '' @ j @ '' '') buf;
          buf = Myprintf_v nf re buf
      in case on of None \<Rightarrow> buf | Some b \<Rightarrow> Myprintf_v nf b (WriteString '' on '' buf))"
| "Format nf (AliasedTableExpr e a hs) buf =
     (let buf = Myprintf_v nf e buf;
          buf = (case a of None \<Rightarrow> buf | Some n \<Rightarrow> WriteString ('' as '' @ n) buf)
      in case hs of None \<Rightarrow> buf | Some hn \<Rightarrow> Myprintf_v nf hn buf)"
| "Format nf (IndexHints t ns) buf =
     WriteString ('' '' @ t @ '' index '' @ joinNames ''('' ns @ '')'') buf"
| "Format nf (LimitNode off rc) buf =
     (let buf = WriteString '' limit '' buf;
          buf = (case off of None \<Rightarrow> buf | Some x \<Rightarrow> WriteString '', '' (Myprintf_v nf x buf))
      in Myprintf_v nf rc buf)"
| "Format nf (WhereNode t e) buf = Myprintf_v nf e (WriteString ('' '' @ t @ '' '') buf)"
| "Format nf (ValArg a) buf = WriteArg a buf"
| "Format nf (Raw s) buf = WriteString s buf"
| "Format nf (Node k ps) buf = Format_seq nf [] [] ps buf"

| "Format_seq nf pre sep [] buf = buf"
| "Format_seq nf pre sep (n # ns) buf =
     Format_seq nf sep sep ns (Myprintf_v nf n (WriteString pre buf))"

| "Format_opt nf None buf = buf"
| "Format_opt nf (Some n) buf = Myprintf_v nf n buf"

section \<open>Query rewriter (generator.go)\<close>

definition GenerateFullQuery :: "SQLNode \<Rightarrow> ParsedQuery" where
  "GenerateFullQuery statement = ParsedQuery_of (Format NoFormatter statement NewTrackedBuffer)"

definition GenerateFieldQuery :: "SQLNode \<Rightarrow> ParsedQuery option" where
  "GenerateFieldQuery statement =
     (let buf = Myprintf_v UseFormatImpossible statement NewTrackedBuffer
      in if HasBindVars buf then None else Some (ParsedQuery_of buf))"

definition execLimit :: SQLNode where
  "execLimit = LimitNode None (ValArg '':#maxLimit'')"

text \<open>Assignments to fields of nodes reached through a pointer.\<close>

fun set_Limit :: "SQLNode option \<Rightarrow> SQLNode \<Rightarrow> SQLNode" where
  "set_Limit v (Select c d es fr w g h ob l lk) = Select c d es fr w g h ob v lk"
| "set_Limit v node = node"

fun set_Hints :: "SQLNode option \<Rightarrow> SQLNode \<Rightarrow> SQLNode" where
  "set_Hints v (AliasedTableExpr e a hs) = AliasedTableExpr e a v"
| "set_Hints v node = node"

fun set_From :: "SQLNode list \<Rightarrow> SQLNode \<Rightarrow> SQLNode" where
  "set_From v (Select c d es fr w g h ob l lk) = Select c d es v w g h ob l lk"
| "set_From v node = node"

text \<open>
  \<open>GenerateSelectLimitQuery\<close> writes to the statement it is given, so the model returns the
  query together with the statement as it is after the call: \<open>sel.Limit = execLimit\<close>
  before printing, and the deferred \<open>sel.Limit = nil\<close> on return.
\<close>

definition GenerateSelectLimitQuery :: "SQLNode \<Rightarrow> ParsedQuery \<times> SQLNode" where
  "GenerateSelectLimitQuery selStmt =
     (case selStmt of
        Select c d es fr w g h ob limit lk \<Rightarrow>
          (if limit = None
           then let sel = set_Limit (Some execLimit) selStmt;
                    buf = Myprintf_v NoFormatter sel NewTrackedBuffer;
                    sel = set_Limit None sel
                in (ParsedQuery_of buf, sel)
           else (ParsedQuery_of (Myprintf_v NoFormatter selStmt NewTrackedBuffer), selStmt))
      | _ \<Rightarrow> (ParsedQuery_of (Myprintf_v NoFormatter selStmt NewTrackedBuffer), selStmt))"

definition AST_FOR_UPDATE :: string where "AST_FOR_UPDATE = '' for update''"
definition AST_USE :: string where "AST_USE = ''use''"

text \<open>
  \<open>GenerateSubquery\<close>. The column loop leaves \<open>i\<close> at 0 for an empty list, and
  \<open>columns[i]\<close> then panics.
\<close>

fun columnList :: "string list \<Rightarrow> string" where
  "columnList [] = []"
| "columnList [c] = c"
| "columnList (c # cs) = c @ '', '' @ columnList cs"

definition GenerateSubquery ::
    "string list \<Rightarrow> SQLNode \<Rightarrow> SQLNode option \<Rightarrow> SQLNode list \<Rightarrow> SQLNode option \<Rightarrow> bool
     \<Rightarrow> error + ParsedQuery" where
  "GenerateSubquery columns table whr order limit for_update =
     (let buf = NewTrackedBuffer;
          limit = (case limit of None \<Rightarrow> execLimit | Some l \<Rightarrow> l);
          buf = WriteString ''select '' buf
      in if columns = [] then Inl (Panic ''index out of range'')
         else
           let buf = WriteString (columnList columns) buf;
               buf = WriteString '' from '' buf;
               buf = Myprintf_v NoFormatter table buf;
               buf = Format_opt NoFormatter whr buf;
               buf = Format_seq NoFormatter '' order by '' '', '' order buf;
               buf = Myprintf_v NoFormatter limit buf;
               buf = (if for_update then WriteString AST_FOR_UPDATE buf else buf)
           in Inr (ParsedQuery_of buf))"

text \<open>
  \<open>GenerateSelectSubquery\<close>, again with the statement as it is after the call. \<open>sel\<close> is a
  \<open>*Select\<close> (the last case of the model is excluded by Go's types); \<open>sel.From[0]\<close> panics
  on an empty list and the type assertion panics on any other table expression, both
  before anything is written. The hint is installed in
  \<open>sel.From[0]\<close>, the subquery is printed from the statement in that state, and the deferred
  function puts the saved hints back, also when \<open>tableInfo.Indexes[0]\<close> or the column list
  makes the call panic.
\<close>

definition GenerateSelectSubquery ::
    "SQLNode \<Rightarrow> 'a Table_scheme \<Rightarrow> string \<Rightarrow> (error + ParsedQuery) \<times> SQLNode" where
  "GenerateSelectSubquery sel tableInfo index =
     (case sel of
        Select c d es fr w g h ob l lk \<Rightarrow>
          (let hint = IndexHints AST_USE [index]
           in case fr of
                [] \<Rightarrow> (Inl (Panic ''index out of range''), sel)
              | AliasedTableExpr e a savedHint # rest \<Rightarrow>
                  let sel = set_From (set_Hints (Some hint) (From sel ! 0) # tl (From sel)) sel;
                      table_expr = From sel ! 0;
                      result = (case Indexes tableInfo of
                                  [] \<Rightarrow> Inl (Panic ''index out of range'')
                                | pk # _ \<Rightarrow>
                                    GenerateSubquery (IdxColumns pk) table_expr (Where sel)
                                      (OrderBy sel) (Limit sel) False);
                      sel = set_From (set_Hints savedHint (From sel ! 0) # tl (From sel)) sel
                  in (result, sel)
              | _ # rest \<Rightarrow> (Inl (Panic ''interface conversion''), sel))
      | _ \<Rightarrow> (Inl (Panic ''not a Select''), sel))"

section \<open>SQL analyser (plan.go)\<close>

text \<open>
  Modelled from the spec: the plan and reason enumerations are declared in a file that is
  not among the sources; the spec lists their values. The first value of each is the zero
  value of a freshly made \<open>ExecPlan\<close>. A \<open>PKValues\<close> element is a literal, a bind variable
  name or nil.
\<close>

datatype PlanType =
    PLAN_PASS_SELECT | PLAN_PK_EQUAL | PLAN_PK_IN | PLAN_SELECT_SUBQUERY | PLAN_PASS_DML
  | PLAN_DML_PK | PLAN_DML_SUBQUERY | PLAN_INSERT_PK | PLAN_INSERT_SUBQUERY | PLAN_SET
  | PLAN_DDL | PLAN_OTHER

datatype ReasonType =
    REASON_DEFAULT | REASON_SELECT | REASON_TABLE | REASON_TABLE_NOINDEX | REASON_PK_CHANGE
  | REASON_HAS_HINTS | REASON_UPSERT

datatype PKValue = Literal string | Bind string | Null

record ExecPlan =
  PlanId :: PlanType
  Reason :: ReasonType
  TableName :: string
  FieldQuery :: "ParsedQuery option"
  FullQuery :: "ParsedQuery option"
  OuterQuery :: "ParsedQuery option"
  Subquery :: "ParsedQuery option"
  IndexUsed :: string
  ColumnNumbers :: "int list"
  PKValues :: "PKValue list"
  PlanLimit :: PKValue
  SecondaryPKValues :: "PKValue list"
  SubqueryPKColumns :: "int list"
  SetKey :: string
  SetValue :: PKValue

definition zeroPlan :: ExecPlan where
  "zeroPlan = \<lparr>PlanId = PLAN_PASS_SELECT, Reason = REASON_DEFAULT, TableName = [],
     FieldQuery = None, FullQuery = None, OuterQuery = None, Subquery = None, IndexUsed = [],
     ColumnNumbers = [], PKValues = [], PlanLimit = Null, SecondaryPKValues = [],
     SubqueryPKColumns = [], SetKey = [], SetValue = Null\<rparr>"

type_synonym TableGetter = "string \<Rightarrow> Table option"

text \<open>
  The analysers of the single statement kinds are in files that are not among the
  sources; \<open>analyzeSQL\<close> takes them as parameters.
\<close>

record Analysers =
  analyzeSelect :: "SQLNode \<Rightarrow> TableGetter \<Rightarrow> error + ExecPlan"
  analyzeInsert :: "SQLNode \<Rightarrow> TableGetter \<Rightarrow> error + ExecPlan"
  analyzeUpdate :: "SQLNode \<Rightarrow> TableGetter \<Rightarrow> error + ExecPlan"
  analyzeDelete :: "SQLNode \<Rightarrow> TableGetter \<Rightarrow> error + ExecPlan"
  analyzeSet :: "SQLNode \<Rightarrow> ExecPlan"
  analyzeDDL :: "SQLNode \<Rightarrow> TableGetter \<Rightarrow> ExecPlan"

fun analyzeSQL :: "Analysers \<Rightarrow> SQLNode \<Rightarrow> TableGetter \<Rightarrow> error + ExecPlan" where
  "analyzeSQL an (Union_stmt t l r) getTable =
     Inr (zeroPlan\<lparr>PlanId := PLAN_PASS_SELECT,
                   FieldQuery := GenerateFieldQuery (Union_stmt t l r),
                   FullQuery := Some (GenerateFullQuery (Union_stmt t l r)),
                   Reason := REASON_SELECT\<rparr>)"
| "analyzeSQL an (Select c d es fr w g h ob l lk) getTable =
     analyzeSelect an (Select c d es fr w g h ob l lk) getTable"
| "analyzeSQL an (Node Insert ps) getTable = analyzeInsert an (Node Insert ps) getTable"
| "analyzeSQL an (Node Update ps) getTable = analyzeUpdate an (Node Update ps) getTable"
| "analyzeSQL an (Node Delete ps) getTable = analyzeDelete an (Node Delete ps) getTable"
| "analyzeSQL an (Node Set ps) getTable = Inr (analyzeSet an (Node Set ps))"
| "analyzeSQL an (Node DDL ps) getTable = Inr (analyzeDDL an (Node DDL ps) getTable)"
| "analyzeSQL an (Node Other ps) getTable = Inr (zeroPlan\<lparr>PlanId := PLAN_OTHER\<rparr>)"
| "analyzeSQL an statement getTable = Inl (Err ''invalid SQL'')"

section \<open>The field query as a rewritten statement\<close>

text \<open>
  The statement of which the field query is the canonical reprint, following the spec's
  description of the field query: every SELECT has the WHERE clause \<open>where 1 != 1\<close>, and a
  LEFT or RIGHT join has \<open>on 1 != 1\<close>. What the callback does not print is absent: of a
  SELECT only the select expressions and the FROM list remain, and any other join has no
  ON clause.
\<close>

definition impossibleWhere :: SQLNode where
  "impossibleWhere = WhereNode ''where'' (Raw ''1 != 1'')"

fun impossible :: "SQLNode \<Rightarrow> SQLNode" where
  "impossible (Select c d es fr w g h ob l lk) =
     Select [] [] (map impossible es) (map impossible fr) (Some impossibleWhere) [] None [] None []"
| "impossible (JoinTableExpr le j re on) =
     JoinTableExpr (impossible le) j (impossible re)
       (if j = AST_LEFT_JOIN \<or> j = AST_RIGHT_JOIN then Some (Raw ''1 != 1'') else None)"
| "impossible (Union_stmt t l r) = Union_stmt t (impossible l) (impossible r)"
| "impossible (AliasedTableExpr e a hs) =
     AliasedTableExpr (impossible e) a (map_option impossible hs)"
| "impossible (IndexHints t ns) = IndexHints t ns"
| "impossible (LimitNode off rc) = LimitNode (map_option impossible off) (impossible rc)"
| "impossible (WhereNode t e) = WhereNode t (impossible e)"
| "impossible (ValArg a) = ValArg a"
| "impossible (Raw s) = Raw s"
| "impossible (Node k ps) = Node k (map impossible ps)"

text \<open>All nodes of a statement, the statement itself first.\<close>

fun subnodes :: "SQLNode \<Rightarrow> SQLNode list" where
  "subnodes (Select c d es fr w g h ob l lk) =
     Select c d es fr w g h ob l lk #
       concat (map subnodes es) @ concat (map subnodes fr) @ (case w of None \<Rightarrow> [] | Some n \<Rightarrow> subnodes n)
       @ concat (map subnodes g) @ (case h of None \<Rightarrow> [] | Some n \<Rightarrow> subnodes n)
       @ concat (map subnodes ob) @ (case l of None \<Rightarrow> [] | Some n \<Rightarrow> subnodes n)"
| "subnodes (JoinTableExpr le j re on) =
     JoinTableExpr le j re on # subnodes le @ subnodes re
       @ (case on of None \<Rightarrow> [] | Some n \<Rightarrow> subnodes n)"
| "subnodes (Union_stmt t l r) = Union_stmt t l r # subnodes l @ subnodes r"
| "subnodes (AliasedTableExpr e a hs) =
     AliasedTableExpr e a hs # subnodes e @ (case hs of None \<Rightarrow> [] | Some n \<Rightarrow> subnodes n)"
| "subnodes (IndexHints t ns) = [IndexHints t ns]"
| "subnodes (LimitNode off rc) =
     LimitNode off rc # (case off of None \<Rightarrow> [] | Some n \<Rightarrow> subnodes n) @ subnodes rc"
| "subnodes (WhereNode t e) = WhereNode t e # subnodes e"
| "subnodes (ValArg a) = [ValArg a]"
| "subnodes (Raw s) = [Raw s]"
| "subnodes (Node k ps) = Node k ps # concat (map subnodes ps)"

definition isImpossible :: "SQLNode \<Rightarrow> bool" where
  "isImpossible node =
     (case node of
        Select c d es fr w g h ob l lk \<Rightarrow> w = Some impossibleWhere
      | JoinTableExpr le j re on \<Rightarrow>
          on = (if j = AST_LEFT_JOIN \<or> j = AST_RIGHT_JOIN then Some (Raw ''1 != 1'') else None)
      | _ \<Rightarrow> True)"

text \<open>The number of bind variables among the nodes of a statement.\<close>

definition argCount :: "SQLNode \<Rightarrow> nat" where
  "argCount n = length (filter is_ValArg (subnodes n))"

section \<open>Example inputs\<close>

definition exampleExternals :: Externals where
  "exampleExternals =
     \<lparr>BuildValue = (\<lambda>c. Inr c),
      typeCategory = (\<lambda>s. if prefix ''int'' s then CAT_NUMBER
                           else if prefix ''varbinary'' s then CAT_VARBINARY else CAT_OTHER),
      ParseUint = (\<lambda>s. length s)\<rparr>"

definition exampleColumns :: "error + cell list list" where
  "exampleColumns = Inr
     [[Some ''id'', Some ''int(11)'', Some ''NO'', Some ''PRI'', None, Some ''auto_increment''],
      [Some ''name'', Some ''varbinary(64)'', Some ''YES'', Some ''MUL'', None, Some '''']]"

definition exampleIndexes :: "error + cell list list" where
  "exampleIndexes = Inr
     [[Some ''t'', Some ''0'', Some ''PRIMARY'', Some ''1'', Some ''id'', Some ''A'', Some ''7''],
      [Some ''t'', Some ''1'', Some ''by_name'', Some ''1'', Some ''name'', Some ''A'', None]]"

definition exampleIndexesNoPK :: "error + cell list list" where
  "exampleIndexesNoPK = Inr
     [[Some ''t'', Some ''0'', Some ''uniq_id'', Some ''1'', Some ''id'', Some ''A'', Some ''7''],
      [Some ''t'', Some ''1'', Some ''by_name'', Some ''1'', Some ''name'', Some ''A'', None]]"

definition exampleTable :: TableInfo where
  "exampleTable =
     \<lparr>Name = ''t'',
      Columns = [\<lparr>ColName = ''id'', Category = CAT_NUMBER, Default = None,
                  Modifier = ''auto_increment''\<rparr>,
                 \<lparr>ColName = ''name'', Category = CAT_VARBINARY, Default = None, Modifier = []\<rparr>],
      Indexes = [\<lparr>IdxName = ''PRIMARY'', IdxColumns = [''id''], Cardinality = [1],
                  DataColumns = [''id'', ''name'']\<rparr>,
                 \<lparr>IdxName = ''by_name'', IdxColumns = [''name''], Cardinality = [0],
                  DataColumns = [''name'', ''id'']\<rparr>],
      PKColumns = Some [0], CacheType = CACHE_NONE, Cache = None,
      hits = 0, absent = 0, misses = 0, invalidations = 0\<rparr>"


definition examplePool :: CachePool where
  "examplePool =
     \<lparr>name = ''rowcache'', pool = Some (NewResourcePool 974 974 0), rowCacheConfig = zeroConfig,
      capacity = 974, port = ''11211'', idleTimeout = 0, DeleteExpiry = 0\<rparr>"

definition exampleConfig :: RowCacheConfig where
  "exampleConfig = \<lparr>Binary = ''/usr/bin/memcached'', Memory = 64, Socket = [], TcpPort = 0,
     Connections = 1024, Threads = 0, LockPaged = False\<rparr>"

definition exampleSelect :: SQLNode where
  "exampleSelect =
     Select [] [] [Raw ''a''] [AliasedTableExpr (Raw ''t'') None None]
       (Some (WhereNode ''where''
          (Node (GoType ''ComparisonExpr'') [Raw ''idx_col'', Raw '' = '', Raw ''7''])))
       [] None [] None []"

definition exampleJoin :: SQLNode where
  "exampleJoin =
     Select [] [] [Raw ''a'']
       [JoinTableExpr (AliasedTableExpr (Raw ''t'') None None) ''left join''
          (AliasedTableExpr (Raw ''u'') None None) (Some (Raw ''t.id = u.id''))]
       (Some (WhereNode ''where''
          (Node (GoType ''ComparisonExpr'') [Raw ''x'', Raw '' = '', ValArg '':x''])))
       [] None [] (Some (LimitNode None (Raw ''5''))) []"

definition exampleBind :: SQLNode where
  "exampleBind =
     Select [] [] [ValArg '':v''] [AliasedTableExpr (Raw ''t'') None None] None [] None [] None []"

definition exampleAnalysers :: Analysers where
  "exampleAnalysers =
     \<lparr>analyzeSelect = (\<lambda>s g. Inl (Err ''select'')),
      analyzeInsert = (\<lambda>s g. Inl (Err ''insert'')),
      analyzeUpdate = (\<lambda>s g. Inl (Err ''update'')),
      analyzeDelete = (\<lambda>s g. Inl (Err ''delete'')),
      analyzeSet = (\<lambda>s. zeroPlan\<lparr>PlanId := PLAN_SET\<rparr>),
      analyzeDDL = (\<lambda>s g. zeroPlan\<lparr>PlanId := PLAN_DDL\<rparr>)\<rparr>"

definition examplePrimary :: Table where
  "examplePrimary =
     \<lparr>Name = ''t'', Columns = [],
      Indexes = [\<lparr>IdxName = ''PRIMARY'', IdxColumns = [''pk''], Cardinality = [1],
                  DataColumns = []\<rparr>],
      PKColumns = Some [0], CacheType = CACHE_NONE\<rparr>"

definition exampleColumns3 :: "error + cell list list" where
  "exampleColumns3 = Inr
     [[Some ''id'', Some ''int(11)'', Some ''NO'', Some ''PRI'', None, Some ''auto_increment''],
      [Some ''name'', Some ''varbinary(64)'', Some ''YES'', Some ''MUL'', None, Some ''''],
      [Some ''email'', Some ''varbinary(64)'', Some ''NO'', Some '''', None, Some '''']]"

definition exampleIndexesEmail :: "error + cell list list" where
  "exampleIndexesEmail = Inr
     [[Some ''t'', Some ''0'', Some ''PRIMARY'', Some ''1'', Some ''email'', Some ''A'', Some ''7''],
      [Some ''t'', Some ''1'', Some ''by_name'', Some ''1'', Some ''name'', Some ''A'', None]]"

definition exampleTable3 :: TableInfo where
  "exampleTable3 =
     \<lparr>Name = ''t'',
      Columns = [\<lparr>ColName = ''id'', Category = CAT_NUMBER, Default = None,
                  Modifier = ''auto_increment''\<rparr>,
                 \<lparr>ColName = ''name'', Category = CAT_VARBINARY, Default = None, Modifier = []\<rparr>,
                 \<lparr>ColName = ''email'', Category = CAT_VARBINARY, Default = None, Modifier = []\<rparr>],
      Indexes = [\<lparr>IdxName = ''PRIMARY'', IdxColumns = [''id''], Cardinality = [1],
                  DataColumns = [''id'', ''name'', ''email'']\<rparr>,
                 \<lparr>IdxName = ''by_name'', IdxColumns = [''name''], Cardinality = [0],
                  DataColumns = [''name'', ''id'']\<rparr>],
      PKColumns = Some [0], CacheType = CACHE_NONE, Cache = None,
      hits = 0, absent = 0, misses = 0, invalidations = 0\<rparr>"

section \<open>Table info: auxiliary facts\<close>

lemma andThen_Inr_iff: "andThen r f = Inr y \<longleftrightarrow> (\<exists>v. r = Inr v \<and> f v = Inr y)"
  by (cases r) (simp_all add: andThen_def)

lemma findFrom_none: "0 \<le> i \<Longrightarrow> (findFrom i nm xs = - 1) = (nm \<notin> set xs)"
  by (induction xs arbitrary: i) auto

lemma findFrom_found:
  "nm \<in> set xs \<Longrightarrow> i \<le> findFrom i nm xs \<and> findFrom i nm xs < i + int (length xs)
     \<and> xs ! nat (findFrom i nm xs - i) = nm"
proof (induction xs arbitrary: i)
  case Nil
  then show ?case by simp
next
  case (Cons x xs)
  show ?case
  proof (cases "x = nm")
    case True
    then show ?thesis by simp
  next
    case False
    with Cons.prems have "nm \<in> set xs" by simp
    from Cons.IH [OF this, of "i + 1"]
    have ih: "i + 1 \<le> findFrom (i + 1) nm xs" "findFrom (i + 1) nm xs < i + 1 + int (length xs)"
      "xs ! nat (findFrom (i + 1) nm xs - (i + 1)) = nm" by simp_all
    from ih(1) have "nat (findFrom (i + 1) nm xs - i) = Suc (nat (findFrom (i + 1) nm xs - (i + 1)))"
      by linarith
    with ih False show ?thesis by simp
  qed
qed

lemma FindColumn_none: "(FindColumn ta nm = - 1) = (nm \<notin> ColName ` set (Columns ta))"
  by (simp add: FindColumn_def findFrom_none)

lemma FindColumn_found:
  assumes "nm \<in> ColName ` set (Columns ta)"
  shows "0 \<le> FindColumn ta nm \<and> FindColumn ta nm < int (length (Columns ta))
     \<and> ColName (Columns ta ! nat (FindColumn ta nm)) = nm"
proof -
  from assms have m: "nm \<in> set (map ColName (Columns ta))" by simp
  let ?r = "findFrom 0 nm (map ColName (Columns ta))"
  from findFrom_found [OF m, of 0]
  have r: "0 \<le> ?r" "?r < int (length (Columns ta))" "map ColName (Columns ta) ! nat ?r = nm"
    by simp_all
  from r(1,2) have "nat ?r < length (Columns ta)" by linarith
  with r show ?thesis by (simp add: FindColumn_def)
qed





lemma fetchColumns_loop_frame:
  "fetchColumns_loop ex rows ti = Inr ti' \<Longrightarrow>
     Indexes ti' = Indexes ti \<and> PKColumns ti' = PKColumns ti \<and> CacheType ti' = CacheType ti
     \<and> Cache ti' = Cache ti"
proof (induction rows arbitrary: ti)
  case Nil
  then show ?case by simp
next
  case (Cons row rows)
  from Cons.prems show ?case
    by (auto simp: andThen_Inr_iff AddColumn_def split: sum.splits dest!: Cons.IH)
qed

lemma in_set_updateD: "x \<in> set (xs[k := v]) \<Longrightarrow> (k < length xs \<and> x = v) \<or> x \<in> set xs"
proof (cases "k < length xs")
  case True
  assume "x \<in> set (xs[k := v])"
  with set_update_subset_insert [of xs k v] True show ?thesis by auto
next
  case False
  assume "x \<in> set (xs[k := v])"
  with False show ?thesis by (simp add: list_update_beyond)
qed

lemma fetchIndexes_row_Inr:
  assumes "fetchIndexes_row ex row (cur, nm, ti) = Inr (cur', nm', ti')"
  shows "\<exists>k col c. cur' = Some k
     \<and> (if nm \<noteq> nm' then k = length (Indexes ti) else cur = Some k)
     \<and> ti' = (if nm \<noteq> nm' then AddIndex ti nm' else ti)
           \<lparr>Indexes := (Indexes (if nm \<noteq> nm' then AddIndex ti nm' else ti))
              [k := Index_AddColumn (Indexes (if nm \<noteq> nm' then AddIndex ti nm' else ti) ! k) col c]\<rparr>"
proof -
  from assms obtain indexName where
    n: "bytesAt row 2 = Inr indexName"
    and r1: "(let (currentIndex, ti) =
               (if nm \<noteq> indexName
                then (Some (length (Indexes ti)), AddIndex ti indexName)
                else (cur, ti))
         in andThen (at row 6) (\<lambda>c6.
              let cardinality = (case c6 of None \<Rightarrow> 0 | Some b \<Rightarrow> ParseUint ex b)
              in andThen (bytesAt row 4) (\<lambda>col.
                   case currentIndex of
                     None \<Rightarrow> Inl (Panic ''nil pointer dereference'')
                   | Some k \<Rightarrow>
                       Inr (Some k, indexName,
                            ti\<lparr>Indexes := (Indexes ti)
                                  [k := Index_AddColumn (Indexes ti ! k) col cardinality]\<rparr>)))) = Inr (cur', nm', ti')"
    unfolding fetchIndexes_row_def by (simp add: andThen_Inr_iff) blast
  show ?thesis
  proof (cases "nm \<noteq> indexName")
    case True
    with r1 show ?thesis
      by (simp add: andThen_Inr_iff Let_def) blast
  next
    case False
    with r1 show ?thesis
      by (cases cur) (auto simp: andThen_Inr_iff Let_def)
  qed
qed

lemma fetchIndexes_row_inv:
  assumes "fetchIndexes_row ex row (cur, nm, ti) = Inr (cur', nm', ti')"
    and inv: "\<forall>idx \<in> set (Indexes ti). DataColumns idx = [] \<and> IdxColumns idx \<noteq> []"
  shows "(\<forall>idx \<in> set (Indexes ti'). DataColumns idx = [] \<and> IdxColumns idx \<noteq> [])
     \<and> Columns ti' = Columns ti \<and> PKColumns ti' = PKColumns ti \<and> CacheType ti' = CacheType ti
     \<and> Cache ti' = Cache ti"
proof -
  define t1 where "t1 = (if nm \<noteq> nm' then AddIndex ti nm' else ti)"
  from fetchIndexes_row_Inr [OF assms(1)] obtain k col c where
    k: "if nm \<noteq> nm' then k = length (Indexes ti) else cur = Some k"
    and t: "ti' = t1\<lparr>Indexes := (Indexes t1)[k := Index_AddColumn (Indexes t1 ! k) col c]\<rparr>"
    unfolding t1_def by blast
  have frame: "Columns t1 = Columns ti" "PKColumns t1 = PKColumns ti" "CacheType t1 = CacheType ti"
    "Cache t1 = Cache ti"
    by (simp_all add: t1_def AddIndex_def)
  have d1: "\<forall>idx \<in> set (Indexes t1). DataColumns idx = []"
    using inv by (auto simp: t1_def AddIndex_def NewIndex_def)
  have c1: "\<forall>j < length (Indexes t1). j \<noteq> k \<longrightarrow> IdxColumns (Indexes t1 ! j) \<noteq> []"
    using inv k by (auto simp: t1_def AddIndex_def nth_append split: if_splits)
  have "DataColumns idx = [] \<and> IdxColumns idx \<noteq> []" if m: "idx \<in> set (Indexes ti')" for idx
  proof -
    from m obtain j where j: "j < length (Indexes t1)"
      and e: "idx = (Indexes t1)[k := Index_AddColumn (Indexes t1 ! k) col c] ! j"
      by (auto simp: t in_set_conv_nth)
    show ?thesis
    proof (cases "j = k")
      case True
      with j e d1 show ?thesis by (simp add: Index_AddColumn_def)
    next
      case False
      with j e d1 c1 show ?thesis by simp
    qed
  qed
  with frame show ?thesis by (simp add: t)
qed

lemma fetchIndexes_loop_inv:
  assumes "fetchIndexes_loop ex rows st = Inr ti'"
    and "\<forall>idx \<in> set (Indexes (snd (snd st))). DataColumns idx = [] \<and> IdxColumns idx \<noteq> []"
  shows "(\<forall>idx \<in> set (Indexes ti'). DataColumns idx = [] \<and> IdxColumns idx \<noteq> [])
     \<and> Columns ti' = Columns (snd (snd st)) \<and> PKColumns ti' = PKColumns (snd (snd st))
     \<and> CacheType ti' = CacheType (snd (snd st)) \<and> Cache ti' = Cache (snd (snd st))"
  using assms
proof (induction rows arbitrary: st)
  case Nil
  then show ?case by simp
next
  case (Cons row rows)
  obtain cur nm ti where st: "st = (cur, nm, ti)" by (cases st) auto
  from Cons.prems(1) obtain cur' nm' t' where
    step: "fetchIndexes_row ex row (cur, nm, ti) = Inr (cur', nm', t')"
    and rest: "fetchIndexes_loop ex rows (cur', nm', t') = Inr ti'"
    by (auto simp: st split: sum.splits)
  from Cons.prems(2) have "\<forall>idx \<in> set (Indexes ti). DataColumns idx = [] \<and> IdxColumns idx \<noteq> []"
    by (simp add: st)
  from fetchIndexes_row_inv [OF step this]
  have a: "\<forall>idx \<in> set (Indexes t'). DataColumns idx = [] \<and> IdxColumns idx \<noteq> []"
    and b: "Columns t' = Columns ti" "PKColumns t' = PKColumns ti" "CacheType t' = CacheType ti"
      "Cache t' = Cache ti" by simp_all
  from Cons.IH [OF rest] a have
    "(\<forall>idx \<in> set (Indexes ti'). DataColumns idx = [] \<and> IdxColumns idx \<noteq> [])
     \<and> Columns ti' = Columns t' \<and> PKColumns ti' = PKColumns t'
     \<and> CacheType ti' = CacheType t' \<and> Cache ti' = Cache t'" by simp
  with b show ?case by (simp add: st)
qed

lemma fetchIndexes_Inr:
  assumes "fetchIndexes ex indexes ti = Inr ti'"
  shows "\<exists>rows t. indexes = Inr rows \<and> fetchIndexes_loop ex rows (None, [], ti) = Inr t
     \<and> ti' = (if Indexes t = [] \<or> IdxName (Indexes t ! 0) \<noteq> ''PRIMARY'' then t else finishIndexes t)"
proof -
  from assms obtain rows where rows: "indexes = Inr rows"
    by (cases indexes) (simp_all add: fetchIndexes_def)
  with assms obtain t where t: "fetchIndexes_loop ex rows (None, [], ti) = Inr t"
    by (auto simp: fetchIndexes_def andThen_Inr_iff)
  have "ti' = (if Indexes t = [] \<or> IdxName (Indexes t ! 0) \<noteq> ''PRIMARY'' then t else finishIndexes t)"
    using assms rows t by (auto simp: fetchIndexes_def andThen_def split: if_splits)
  with rows t show ?thesis by blast
qed

lemma loadTableInfo_Inr:
  assumes "loadTableInfo ex columns indexes tableName = Inr ti"
  shows "\<exists>t. (\<forall>idx \<in> set (Indexes t). DataColumns idx = [] \<and> IdxColumns idx \<noteq> [])
     \<and> PKColumns t = None \<and> CacheType t = CACHE_NONE \<and> Cache t = None
     \<and> ti = (if Indexes t = [] \<or> IdxName (Indexes t ! 0) \<noteq> ''PRIMARY'' then t else finishIndexes t)"
proof -
  from assms obtain t0 where t0: "fetchColumns ex columns (NewTableInfo0 tableName) = Inr t0"
    and fi: "fetchIndexes ex indexes t0 = Inr ti"
    by (auto simp: loadTableInfo_def andThen_Inr_iff)
  from t0 obtain rows0 where "fetchColumns_loop ex rows0 (NewTableInfo0 tableName) = Inr t0"
    by (cases columns) (simp_all add: fetchColumns_def)
  from fetchColumns_loop_frame [OF this]
  have f0: "Indexes t0 = []" "PKColumns t0 = None" "CacheType t0 = CACHE_NONE" "Cache t0 = None"
    by (simp_all add: NewTableInfo0_def)
  from fetchIndexes_Inr [OF fi] obtain rows t where
    l: "fetchIndexes_loop ex rows (None, [], t0) = Inr t"
    and e: "ti = (if Indexes t = [] \<or> IdxName (Indexes t ! 0) \<noteq> ''PRIMARY'' then t else finishIndexes t)"
    by blast
  from fetchIndexes_loop_inv [OF l] f0
  have "(\<forall>idx \<in> set (Indexes t). DataColumns idx = [] \<and> IdxColumns idx \<noteq> [])
     \<and> PKColumns t = None \<and> CacheType t = CACHE_NONE \<and> Cache t = None" by simp
  with e show ?thesis by blast
qed

lemma finishIndexes_closed:
  "Indexes t \<noteq> [] \<Longrightarrow>
   finishIndexes t =
     t\<lparr>PKColumns := Some (map (FindColumn t) (IdxColumns (Indexes t ! 0))),
       Indexes := (Indexes t ! 0)\<lparr>DataColumns := DataColumns (Indexes t ! 0) @ map ColName (Columns t)\<rparr>
                  # map (coverSecondary (IdxColumns (Indexes t ! 0))) (tl (Indexes t))\<rparr>"
  by (cases "Indexes t") (simp_all add: finishIndexes_def Let_def FindColumn_def)

lemma finishIndexes_fields:
  "Columns (finishIndexes t) = Columns t" "CacheType (finishIndexes t) = CacheType t"
  "Cache (finishIndexes t) = Cache t"
  "FindColumn (finishIndexes t) = FindColumn t"
  "length (Indexes (finishIndexes t)) = Suc (length (tl (Indexes t)))"
  by (simp_all add: finishIndexes_def Let_def FindColumn_def fun_eq_iff)

lemma finishIndexes_first:
  "Indexes t \<noteq> [] \<Longrightarrow>
   IdxName (Indexes (finishIndexes t) ! 0) = IdxName (Indexes t ! 0)
   \<and> IdxColumns (Indexes (finishIndexes t) ! 0) = IdxColumns (Indexes t ! 0)
   \<and> DataColumns (Indexes (finishIndexes t) ! 0) = DataColumns (Indexes t ! 0) @ map ColName (Columns t)"
  by (simp add: finishIndexes_closed)


lemma loadTableInfo_PRIMARY:
  assumes "loadTableInfo ex columns indexes tableName = Inr ti"
    and "Indexes ti \<noteq> []" and "IdxName (Indexes ti ! 0) = ''PRIMARY''"
  shows "\<exists>t. ti = finishIndexes t \<and> Indexes t \<noteq> []
     \<and> (\<forall>idx \<in> set (Indexes t). DataColumns idx = [] \<and> IdxColumns idx \<noteq> [])"
proof -
  from loadTableInfo_Inr [OF assms(1)] obtain t where
    inv: "\<forall>idx \<in> set (Indexes t). DataColumns idx = [] \<and> IdxColumns idx \<noteq> []"
    and e: "ti = (if Indexes t = [] \<or> IdxName (Indexes t ! 0) \<noteq> ''PRIMARY'' then t else finishIndexes t)"
    by blast
  have ne: "Indexes t \<noteq> []" using e assms(2) by (auto split: if_splits)
  have pr: "IdxName (Indexes t ! 0) = ''PRIMARY''"
  proof (rule ccontr)
    assume n: "IdxName (Indexes t ! 0) \<noteq> ''PRIMARY''"
    with e have "ti = t" by simp
    with assms(3) n show False by simp
  qed
  from e ne pr have "ti = finishIndexes t" by simp
  with ne inv show ?thesis by blast
qed

lemma finishIndexes_PKColumns:
  "Indexes t \<noteq> [] \<Longrightarrow>
   PKColumns (finishIndexes t)
     = Some (map (FindColumn (finishIndexes t)) (IdxColumns (Indexes (finishIndexes t) ! 0)))"
  by (simp add: finishIndexes_fields finishIndexes_first) (simp add: finishIndexes_closed)

lemma pkSupported_Inr:
  "pkSupported cols pk = Inr b \<Longrightarrow>
     b = (\<forall>c \<in> set pk. 0 \<le> c \<and> c < int (length cols) \<and> Category (cols ! nat c) \<noteq> CAT_OTHER)"
  by (induction pk) (auto split: if_splits)

lemma initRowCache_Inr:
  assumes "initRowCache tableType createTime comment cachePool maxPrefix ti = Inr (ti', m)"
  shows "if \<not> IsClosed cachePool \<and> \<not> sublist ''vtocc_nocache'' comment \<and> tableType \<noteq> ''VIEW''
            \<and> (\<exists>pk. PKColumns ti = Some pk
                  \<and> (\<forall>c \<in> set pk. 0 \<le> c \<and> c < int (length (Columns ti))
                         \<and> Category (Columns ti ! nat c) \<noteq> CAT_OTHER))
         then ti' = ti\<lparr>CacheType := CACHE_RW, Cache := Some \<lparr>rc_prefix = maxPrefix + 1\<rparr>\<rparr>
              \<and> m = maxPrefix + 1
         else ti' = ti \<and> m = maxPrefix"
proof (cases "IsClosed cachePool \<or> sublist ''vtocc_nocache'' comment \<or> tableType = ''VIEW''")
  case True
  with assms show ?thesis by (auto simp: initRowCache_def split: if_splits)
next
  case False
  show ?thesis
  proof (cases "PKColumns ti")
    case None
    with assms False show ?thesis by (simp add: initRowCache_def)
  next
    case (Some pk)
    with assms False obtain b where b: "pkSupported (Columns ti) pk = Inr b"
      and r: "(if \<not> b then Inr (ti, maxPrefix)
               else let ti = ti\<lparr>CacheType := CACHE_RW\<rparr>;
                        (rc, maxPrefix) = NewRowCache maxPrefix
                    in Inr (ti\<lparr>Cache := Some rc\<rparr>, maxPrefix)) = (Inr (ti', m) :: error + TableInfo \<times> int)"
      by (auto simp: initRowCache_def andThen_Inr_iff)
    show ?thesis
    proof (cases b)
      case True
      with r have "ti' = ti\<lparr>CacheType := CACHE_RW, Cache := Some \<lparr>rc_prefix = maxPrefix + 1\<rparr>\<rparr>
              \<and> m = maxPrefix + 1"
        by (auto simp: NewRowCache_def GetMaxPrefix_def Let_def)
      with pkSupported_Inr [OF b] True False Some show ?thesis by simp
    next
      case b': False
      with r have "ti' = ti \<and> m = maxPrefix" by simp
      with pkSupported_Inr [OF b] b' Some show ?thesis by auto
    qed
  qed
qed

lemma SetPK_loop_result:
  "SetPK_loop ti cs st =
     (case filter (\<lambda>c. c \<notin> ColName ` set (Columns ti)) cs of
        c # _ \<Rightarrow> Inl (Err (''column '' @ c @ '' not found''))
      | [] \<Rightarrow> Inr (fst st @ map (FindColumn ti) cs,
                   (snd st)\<lparr>IdxColumns := IdxColumns (snd st) @ cs,
                            Cardinality := Cardinality (snd st) @ replicate (length cs) 1\<rparr>))"
proof (induction cs arbitrary: st)
  case Nil
  show ?case by simp
next
  case (Cons c cs)
  show ?case
  proof (cases "c \<in> ColName ` set (Columns ti)")
    case True
    then have "FindColumn ti c \<noteq> - 1" by (simp add: FindColumn_none)
    with True show ?thesis
      by (simp add: Cons.IH Index_AddColumn_def replicate_append_same split: list.splits)
  next
    case False
    then have "FindColumn ti c = - 1" by (simp add: FindColumn_none)
    with False show ?thesis by simp
  qed
qed

text \<open>
  What \<open>SetPK\<close> returns: the error at the first given name that is not a column of the
  table, or the table with a new PRIMARY index at position 0 (in the place of a first index
  named PRIMARY, otherwise in front of the others) and the positions of the names as
  \<open>PKColumns\<close>. The other indexes are unchanged.
\<close>

lemma SetPK_result:
  "SetPK colnames ti =
     (case filter (\<lambda>c. c \<notin> ColName ` set (Columns ti)) colnames of
        c # _ \<Rightarrow> Inl (Err (''column '' @ c @ '' not found''))
      | [] \<Rightarrow>
          Inr (ti\<lparr>Indexes :=
                    \<lparr>IdxName = ''PRIMARY'', IdxColumns = colnames,
                     Cardinality = replicate (length colnames) 1,
                     DataColumns = map ColName (Columns ti)\<rparr>
                    # (if Indexes ti \<noteq> [] \<and> IdxName (Indexes ti ! 0) = ''PRIMARY''
                       then tl (Indexes ti) else Indexes ti),
                  PKColumns := Some (map (FindColumn ti) colnames)\<rparr>))"
proof (cases "filter (\<lambda>c. c \<notin> ColName ` set (Columns ti)) colnames")
  case (Cons c cs)
  then show ?thesis by (simp add: SetPK_def SetPK_loop_result andThen_def)
next
  case Nil
  show ?thesis
  proof (cases "Indexes ti")
    case Nil': Nil
    with Nil show ?thesis
      by (simp add: SetPK_def SetPK_loop_result andThen_def NewIndex_def Let_def)
  next
    case (Cons i0 rest)
    with Nil show ?thesis
      by (simp add: SetPK_def SetPK_loop_result andThen_def NewIndex_def Let_def)
  qed
qed

lemmas example_simps =
  loadTableInfo_def fetchColumns_def andThen_def at_def bytesAt_def AddColumn_def
  exampleExternals_def exampleColumns_def exampleIndexes_def exampleIndexesNoPK_def
  NewTableInfo0_def fetchIndexes_def finishIndexes_def fetchIndexes_row_def AddIndex_def NewIndex_def
  Index_AddColumn_def coverSecondary_def FindDataColumn_def FindColumn_def Let_def

lemma example_load:
  "loadTableInfo exampleExternals exampleColumns exampleIndexes ''t'' = Inr exampleTable"
  by (simp add: example_simps exampleTable_def)


section \<open>Table info: the claims\<close>

subsection \<open>Cacheability\<close>

text \<open>
  Claim C1. \<open>initRowCache\<close> is reached only through \<open>NewTableInfo\<close>, on the table that
  \<open>loadTableInfo\<close> has just built. Whenever \<open>NewTableInfo\<close> returns a table: if the cache
  pool is open, the comment does not contain \<open>vtocc_nocache\<close>, the table type is not
  \<open>VIEW\<close>, \<open>PKColumns\<close> is non-empty and no PK column has category \<open>other\<close>, then
  \<open>CacheType\<close> is read-write and a \<open>RowCache\<close> is attached; if any of these fails,
  \<open>CacheType\<close> is none and \<open>Cache\<close> is nil.
\<close>

theorem NewTableInfo_cache:
  assumes "NewTableInfo ex columns indexes tableName tableType createTime comment cachePool maxPrefix
             = Inr (ti, m)"
  shows "if \<not> IsClosed cachePool \<and> \<not> sublist ''vtocc_nocache'' comment \<and> tableType \<noteq> ''VIEW''
            \<and> (\<exists>pk. PKColumns ti = Some pk \<and> pk \<noteq> []
                  \<and> (\<forall>c \<in> set pk. 0 \<le> c \<and> c < int (length (Columns ti))
                         \<and> Category (Columns ti ! nat c) \<noteq> CAT_OTHER))
         then CacheType ti = CACHE_RW \<and> Cache ti \<noteq> None
         else CacheType ti = CACHE_NONE \<and> Cache ti = None"
proof -
  from assms obtain t0 where l: "loadTableInfo ex columns indexes tableName = Inr t0"
    and i: "initRowCache tableType createTime comment cachePool maxPrefix t0 = Inr (ti, m)"
    by (auto simp: NewTableInfo_def andThen_Inr_iff)
  from loadTableInfo_Inr [OF l] obtain t where
    inv: "\<forall>idx \<in> set (Indexes t). DataColumns idx = [] \<and> IdxColumns idx \<noteq> []"
    and z: "PKColumns t = None" "CacheType t = CACHE_NONE" "Cache t = None"
    and e: "t0 = (if Indexes t = [] \<or> IdxName (Indexes t ! 0) \<noteq> ''PRIMARY'' then t else finishIndexes t)"
    by blast
  have c0: "CacheType t0 = CACHE_NONE" "Cache t0 = None"
    using e z by (auto simp: finishIndexes_fields)
  have pk0: "PKColumns t0 \<noteq> Some []"
  proof (cases "Indexes t = [] \<or> IdxName (Indexes t ! 0) \<noteq> ''PRIMARY''")
    case True
    with e z show ?thesis by simp
  next
    case False
    then have "Indexes t ! 0 \<in> set (Indexes t)" by simp
    with inv have "IdxColumns (Indexes t ! 0) \<noteq> []" by blast
    with e False show ?thesis by (simp add: finishIndexes_closed)
  qed
  from initRowCache_Inr [OF i] have f: "PKColumns ti = PKColumns t0" "Columns ti = Columns t0"
    by (auto split: if_splits)
  from initRowCache_Inr [OF i] c0 pk0 f show ?thesis
    by (auto split: if_splits)
qed

theorem NewTableInfo_cache_witness:
  "NewTableInfo exampleExternals exampleColumns exampleIndexes ''t'' ''BASE TABLE'' None
       ''orders'' examplePool 0
     = Inr (exampleTable\<lparr>CacheType := CACHE_RW, Cache := Some \<lparr>rc_prefix = 1\<rparr>\<rparr>, 1)
   \<and> \<not> IsClosed examplePool \<and> \<not> sublist ''vtocc_nocache'' ''orders''
   \<and> CacheType (exampleTable\<lparr>CacheType := CACHE_RW, Cache := Some \<lparr>rc_prefix = 1\<rparr>\<rparr>) = CACHE_RW"
proof -
  have c: "\<not> sublist ''vtocc_nocache'' ''orders''" by code_simp
  have o: "\<not> IsClosed examplePool" by (simp add: IsClosed_def examplePool_def)
  have h: "NewTableInfo exampleExternals exampleColumns exampleIndexes ''t'' ''BASE TABLE'' None
       ''orders'' examplePool 0
     = Inr (exampleTable\<lparr>CacheType := CACHE_RW, Cache := Some \<lparr>rc_prefix = 1\<rparr>\<rparr>, 1)"
    using c o by (simp add: NewTableInfo_def example_load initRowCache_def andThen_def exampleTable_def
        NewRowCache_def GetMaxPrefix_def)
  from NewTableInfo_cache [OF h] h c o show ?thesis by simp
qed

subsection \<open>Secondary indexes after schema load\<close>




subsection \<open>Explicit primary key\<close>

text \<open>
  Claim C3. \<open>SetPK\<close> builds the PRIMARY index, puts it at position 0 and makes it cover
  every column of the table, and it reports an unknown name; but it does not repeat the
  second covering loop of \<open>fetchIndexes\<close> (lines 127-139), which extends the
  \<open>DataColumns\<close> of every secondary index with the PK columns. On the table \<open>t(id, name,
  email)\<close> loaded with the indexes \<open>PRIMARY(id)\<close> and \<open>by_name(name)\<close>, \<open>SetPK ["email"]\<close>
  leaves \<open>by_name\<close> with the \<open>DataColumns\<close> \<open>name, id\<close>: the new PK column \<open>email\<close> is not
  among them. Loading the same table with \<open>PRIMARY(email)\<close> gives \<open>by_name\<close> the
  \<open>DataColumns\<close> \<open>name, email\<close>.
\<close>

theorem SetPK_secondary_not_covered:
  "loadTableInfo exampleExternals exampleColumns3 exampleIndexes ''t'' = Inr exampleTable3
   \<and> SetPK [''email''] exampleTable3 =
       Inr (exampleTable3\<lparr>Indexes :=
              [\<lparr>IdxName = ''PRIMARY'', IdxColumns = [''email''], Cardinality = [1],
                DataColumns = [''id'', ''name'', ''email'']\<rparr>,
               \<lparr>IdxName = ''by_name'', IdxColumns = [''name''], Cardinality = [0],
                DataColumns = [''name'', ''id'']\<rparr>],
            PKColumns := Some [2]\<rparr>)
   \<and> ''email'' \<notin> set [''name'', ''id'']
   \<and> map_sum id (\<lambda>t. map DataColumns (Indexes t))
         (loadTableInfo exampleExternals exampleColumns3 exampleIndexesEmail ''t'')
       = Inr [[''id'', ''name'', ''email''], [''name'', ''email'']]"
proof -
  have 1: "loadTableInfo exampleExternals exampleColumns3 exampleIndexes ''t'' = Inr exampleTable3"
    by (simp add: example_simps exampleColumns3_def exampleTable3_def)
  have 2: "SetPK [''email''] exampleTable3 =
       Inr (exampleTable3\<lparr>Indexes :=
              [\<lparr>IdxName = ''PRIMARY'', IdxColumns = [''email''], Cardinality = [1],
                DataColumns = [''id'', ''name'', ''email'']\<rparr>,
               \<lparr>IdxName = ''by_name'', IdxColumns = [''name''], Cardinality = [0],
                DataColumns = [''name'', ''id'']\<rparr>],
            PKColumns := Some [2]\<rparr>)"
    by (simp add: SetPK_def andThen_def NewIndex_def Index_AddColumn_def FindColumn_def Let_def
        exampleTable3_def)
  have 3: "map_sum id (\<lambda>t. map DataColumns (Indexes t))
         (loadTableInfo exampleExternals exampleColumns3 exampleIndexesEmail ''t'')
       = Inr [[''id'', ''name'', ''email''], [''name'', ''email'']]"
    by (simp add: example_simps exampleColumns3_def exampleIndexesEmail_def)
  from 1 2 3 show ?thesis by simp
qed

subsection \<open>The PRIMARY index after schema load\<close>

text \<open>
  Claim C4. Whenever \<open>loadTableInfo\<close> returns a table whose first index is named PRIMARY,
  that index's \<open>DataColumns\<close> is the list of all column names of the table (so it contains
  every column), and \<open>PKColumns\<close> is the list of the results of \<open>FindColumn\<close> on the PRIMARY
  index's columns, in order: for a name that is a column of the table, its position in the
  column list; for a name the column list does not have, the code stores \<open>-1\<close>.
\<close>

theorem loadTableInfo_primary:
  assumes "loadTableInfo ex columns indexes tableName = Inr ti"
    and "Indexes ti \<noteq> []" and "IdxName (Indexes ti ! 0) = ''PRIMARY''"
  shows "DataColumns (Indexes ti ! 0) = map ColName (Columns ti)
     \<and> ColName ` set (Columns ti) \<subseteq> set (DataColumns (Indexes ti ! 0))
     \<and> PKColumns ti = Some (map (FindColumn ti) (IdxColumns (Indexes ti ! 0)))
     \<and> (\<forall>c \<in> set (IdxColumns (Indexes ti ! 0)).
          if c \<in> ColName ` set (Columns ti)
          then 0 \<le> FindColumn ti c \<and> FindColumn ti c < int (length (Columns ti))
               \<and> ColName (Columns ti ! nat (FindColumn ti c)) = c
          else FindColumn ti c = - 1)"
proof -
  from loadTableInfo_PRIMARY [OF assms] obtain t where
    ti: "ti = finishIndexes t" and ne: "Indexes t \<noteq> []"
    and inv: "\<forall>idx \<in> set (Indexes t). DataColumns idx = [] \<and> IdxColumns idx \<noteq> []"
    by blast
  from ne inv have d0: "DataColumns (Indexes t ! 0) = []" by (simp add: nth_mem)
  from finishIndexes_first [OF ne] d0
  have a: "DataColumns (Indexes ti ! 0) = map ColName (Columns ti)"
    by (simp add: ti finishIndexes_fields)
  have c: "PKColumns ti = Some (map (FindColumn ti) (IdxColumns (Indexes ti ! 0)))"
    unfolding ti by (rule finishIndexes_PKColumns [OF ne])
  from a have a': "ColName ` set (Columns ti) \<subseteq> set (DataColumns (Indexes ti ! 0))" by simp
  have d: "\<forall>c \<in> set (IdxColumns (Indexes ti ! 0)).
          if c \<in> ColName ` set (Columns ti)
          then 0 \<le> FindColumn ti c \<and> FindColumn ti c < int (length (Columns ti))
               \<and> ColName (Columns ti ! nat (FindColumn ti c)) = c
          else FindColumn ti c = - 1"
    using FindColumn_found [of _ ti] FindColumn_none [of ti] by simp
  from a a' c d show ?thesis by blast
qed

theorem loadTableInfo_primary_witness:
  "loadTableInfo exampleExternals exampleColumns exampleIndexes ''t'' = Inr exampleTable
   \<and> Indexes exampleTable \<noteq> [] \<and> IdxName (Indexes exampleTable ! 0) = ''PRIMARY''
   \<and> DataColumns (Indexes exampleTable ! 0) = [''id'', ''name'']
   \<and> PKColumns exampleTable = Some [0]"
proof -
  have h2: "Indexes exampleTable \<noteq> []" by (simp add: exampleTable_def)
  have h3: "IdxName (Indexes exampleTable ! 0) = ''PRIMARY''" by (simp add: exampleTable_def)
  from loadTableInfo_primary [OF example_load h2 h3] example_load h2 h3 show ?thesis
    by (simp add: exampleTable_def FindColumn_def)
qed

section \<open>Cache pool: auxiliary facts\<close>

lemma NewCachePool_Inr:
  assumes "Binary cfg \<noteq> []" and "\<not> (0 < Connections cfg \<and> Connections cfg \<le> 50)"
  shows "\<exists>cp. NewCachePool nm cfg qt idle = Inr cp
     \<and> pool cp = None \<and> rowCacheConfig cp = cfg
     \<and> capacity cp = (if 0 < Connections cfg then Connections cfg - 50 else 1024 - 50)
     \<and> idleTimeout cp = idle
     \<and> DeleteExpiry cp = (if (word_of_int (quo (sint qt) Second) :: 64 word) = 0 then 0
                           else 2 * word_of_int (quo (sint qt) Second) + 15)"
  using assms by (simp add: NewCachePool_def Let_def)

lemma NewCachePool_Fatal:
  assumes "Binary cfg \<noteq> []" and "0 < Connections cfg" and "Connections cfg \<le> 50"
  shows "NewCachePool nm cfg qt idle = Inl (Fatal (''insufficient capacity: '' @ Itoa (Connections cfg)))"
  using assms by (simp add: NewCachePool_def Let_def)

lemma NewCachePool_disabled:
  assumes "Binary cfg = []"
  shows "\<exists>cp. NewCachePool nm cfg qt idle = Inr cp \<and> DeleteExpiry cp = 0 \<and> capacity cp = 0"
  using assms by (simp add: NewCachePool_def Let_def)

lemma Open_Capacity:
  assumes "pool cp = None" and "Binary (rowCacheConfig cp) \<noteq> []"
  shows "\<exists>cp'. Open None cp = Inr cp' \<and> Capacity cp' = capacity cp"
  using assms by (simp add: Open_def Capacity_def NewResourcePool_def)

lemma quo_nonneg: "0 \<le> a \<Longrightarrow> quo a Second = a div Second"
  by (cases "a = 0") (simp_all add: quo_def Second_def)

lemma seconds_bound:
  assumes "0 \<le> sint (qt :: 64 word)"
  shows "0 \<le> sint qt div Second \<and> 2 * (sint qt div Second) + 15 < 2 ^ 64"
proof -
  have a: "sint qt < 9223372036854775808" using sint_lt [of qt] by simp
  have p: "(2::int) ^ 64 = 18446744073709551616" by simp
  from assms a show ?thesis unfolding Second_def p by linarith
qed

lemma uint_small: "0 \<le> x \<Longrightarrow> x < 2 ^ 64 \<Longrightarrow> uint (word_of_int x :: 64 word) = x"
  by (simp add: uint_word_of_int take_bit_int_eq_self)

lemma example_pool_30s:
  "NewCachePool ''rowcache'' exampleConfig 30000000000 0 =
     Inr \<lparr>name = ''rowcache'', pool = None, rowCacheConfig = exampleConfig, capacity = 974,
          port = ''11211'', idleTimeout = 0, DeleteExpiry = 75\<rparr>"
  by (simp add: NewCachePool_def exampleConfig_def Let_def quo_def Second_def)

section \<open>Cache pool: capacity and delete expiry\<close>

text \<open>
  Claim C6. For every configuration with a non-empty binary: when \<open>Connections > 50\<close>,
  \<open>NewCachePool\<close> returns a pool whose capacity is \<open>Connections - 50\<close>, and that is what
  \<open>Capacity()\<close> answers once the pool is opened; when \<open>0 < Connections \<le> 50\<close>,
  \<open>NewCachePool\<close> ends the process with \<open>insufficient capacity\<close>; when \<open>Connections\<close> is
  zero (or negative: the code only tests \<open>Connections > 0\<close>), the capacity is \<open>1024 - 50\<close>.
\<close>

theorem NewCachePool_capacity:
  assumes "Binary cfg \<noteq> []"
  shows "(50 < Connections cfg \<longrightarrow>
           (\<exists>cp cp'. NewCachePool nm cfg qt idle = Inr cp \<and> capacity cp = Connections cfg - 50
               \<and> Open None cp = Inr cp' \<and> Capacity cp' = Connections cfg - 50))
     \<and> (0 < Connections cfg \<and> Connections cfg \<le> 50 \<longrightarrow>
           NewCachePool nm cfg qt idle
             = Inl (Fatal (''insufficient capacity: '' @ Itoa (Connections cfg))))
     \<and> (Connections cfg \<le> 0 \<longrightarrow>
           (\<exists>cp cp'. NewCachePool nm cfg qt idle = Inr cp \<and> capacity cp = 1024 - 50
               \<and> Open None cp = Inr cp' \<and> Capacity cp' = 1024 - 50))"
proof (intro conjI impI)
  assume c: "50 < Connections cfg"
  with NewCachePool_Inr [OF assms, of nm qt idle] obtain cp where
    cp: "NewCachePool nm cfg qt idle = Inr cp" "pool cp = None" "rowCacheConfig cp = cfg"
      "capacity cp = Connections cfg - 50" by auto
  from Open_Capacity [of cp] cp assms obtain cp' where
    "Open None cp = Inr cp'" "Capacity cp' = Connections cfg - 50" by auto
  with cp show "\<exists>cp cp'. NewCachePool nm cfg qt idle = Inr cp \<and> capacity cp = Connections cfg - 50
               \<and> Open None cp = Inr cp' \<and> Capacity cp' = Connections cfg - 50" by blast
next
  assume "0 < Connections cfg \<and> Connections cfg \<le> 50"
  with NewCachePool_Fatal [OF assms] show "NewCachePool nm cfg qt idle
             = Inl (Fatal (''insufficient capacity: '' @ Itoa (Connections cfg)))" by simp
next
  assume c: "Connections cfg \<le> 0"
  with NewCachePool_Inr [OF assms, of nm qt idle] obtain cp where
    cp: "NewCachePool nm cfg qt idle = Inr cp" "pool cp = None" "rowCacheConfig cp = cfg"
      "capacity cp = 1024 - 50" by auto
  from Open_Capacity [of cp] cp assms obtain cp' where
    "Open None cp = Inr cp'" "Capacity cp' = 1024 - 50" by auto
  with cp show "\<exists>cp cp'. NewCachePool nm cfg qt idle = Inr cp \<and> capacity cp = 1024 - 50
               \<and> Open None cp = Inr cp' \<and> Capacity cp' = 1024 - 50" by blast
qed

theorem NewCachePool_capacity_witness:
  "Binary exampleConfig \<noteq> [] \<and> 50 < Connections exampleConfig
   \<and> map_sum id capacity (NewCachePool ''rowcache'' exampleConfig 30000000000 0) = Inr 974
   \<and> NewCachePool ''rowcache'' (exampleConfig\<lparr>Connections := 50\<rparr>) 30000000000 0
        = Inl (Fatal ''insufficient capacity: 50'')
   \<and> map_sum id capacity (NewCachePool ''rowcache'' (exampleConfig\<lparr>Connections := 0\<rparr>) 30000000000 0)
        = Inr 974"
proof -
  have b: "Binary exampleConfig \<noteq> []" by (simp add: exampleConfig_def)
  have b1: "Binary (exampleConfig\<lparr>Connections := 50\<rparr>) \<noteq> []" by (simp add: exampleConfig_def)
  have b2: "Binary (exampleConfig\<lparr>Connections := 0\<rparr>) \<noteq> []" by (simp add: exampleConfig_def)
  have i: "Itoa 50 = ''50''" by code_simp
  from NewCachePool_capacity [OF b, of "''rowcache''" 30000000000 0]
  have 1: "map_sum id capacity (NewCachePool ''rowcache'' exampleConfig 30000000000 0) = Inr 974"
    by (auto simp: exampleConfig_def)
  from NewCachePool_capacity [OF b1, of "''rowcache''" 30000000000 0]
  have 2: "NewCachePool ''rowcache'' (exampleConfig\<lparr>Connections := 50\<rparr>) 30000000000 0
        = Inl (Fatal ''insufficient capacity: 50'')"
    using i by (simp add: exampleConfig_def)
  from NewCachePool_capacity [OF b2, of "''rowcache''" 30000000000 0]
  have 3: "map_sum id capacity (NewCachePool ''rowcache'' (exampleConfig\<lparr>Connections := 0\<rparr>) 30000000000 0)
        = Inr 974"
    by (auto simp: exampleConfig_def)
  from b 1 2 3 show ?thesis by (simp add: exampleConfig_def)
qed

text \<open>
  Claim C7, as stated, fails: the code guards the assignment by \<open>seconds != 0\<close>, where
  \<open>seconds\<close> is the timeout truncated to whole seconds. A query timeout of 500 ms is
  configured and has 0 whole seconds; \<open>2 \<times> 0 + 15\<close> is 15, but \<open>DeleteExpiry\<close> stays 0.
\<close>

theorem DeleteExpiry_subsecond_timeout:
  "sint (500000000 :: 64 word) = 500000000
   \<and> quo 500000000 Second = 0
   \<and> map_sum id DeleteExpiry (NewCachePool ''rowcache'' exampleConfig 500000000 0) = Inr 0
   \<and> (2 * word_of_int (quo 500000000 Second) + 15 :: 64 word) = 15"
  by (simp add: NewCachePool_def exampleConfig_def Let_def quo_def Second_def)

text \<open>
  Claim C7, amended. Whenever \<open>NewCachePool\<close> returns a pool, with \<open>s\<close> the query timeout
  truncated to whole seconds and read as a uint64: \<open>DeleteExpiry\<close> is \<open>2 \<times> s + 15\<close> (uint64
  arithmetic) when the binary is non-empty and \<open>s \<noteq> 0\<close>, and zero when \<open>s = 0\<close>, that is with
  no query timeout and with any timeout shorter than one second, and also whenever the
  binary is empty. For a non-negative timeout the value is exact: nothing wraps around.
\<close>

theorem NewCachePool_DeleteExpiry:
  assumes "NewCachePool nm cfg qt idle = Inr cp"
  shows "DeleteExpiry cp =
           (if Binary cfg = [] \<or> (word_of_int (quo (sint qt) Second) :: 64 word) = 0 then 0
            else 2 * word_of_int (quo (sint qt) Second) + 15)
     \<and> (Binary cfg \<noteq> [] \<and> 0 \<le> sint qt \<longrightarrow>
          uint (DeleteExpiry cp) =
            (if sint qt div Second = 0 then 0 else 2 * (sint qt div Second) + 15))"
proof (cases "Binary cfg = []")
  case True
  with NewCachePool_disabled [OF True, of nm qt idle] assms show ?thesis by auto
next
  case False
  have nf: "\<not> (0 < Connections cfg \<and> Connections cfg \<le> 50)"
    using assms NewCachePool_Fatal [OF False, of nm qt idle] by auto
  from NewCachePool_Inr [OF False nf, of nm qt idle] assms
  have d: "DeleteExpiry cp = (if (word_of_int (quo (sint qt) Second) :: 64 word) = 0 then 0
                           else 2 * word_of_int (quo (sint qt) Second) + 15)" by auto
  have "uint (DeleteExpiry cp) =
            (if sint qt div Second = 0 then 0 else 2 * (sint qt div Second) + 15)"
    if nn: "0 \<le> sint qt"
  proof -
    let ?s = "sint qt div Second"
    from seconds_bound [OF nn] have b: "0 \<le> ?s" "2 * ?s + 15 < 2 ^ 64" by simp_all
    then have b': "?s < 2 ^ 64" by simp
    have z: "((word_of_int ?s :: 64 word) = 0) = (?s = 0)"
      using uint_small [OF b(1) b'] by (metis uint_0_eq word_of_int_0)
    have "(2 * word_of_int ?s + 15 :: 64 word) = word_of_int (2 * ?s + 15)" by simp
    then have "uint (2 * word_of_int ?s + 15 :: 64 word) = 2 * ?s + 15"
      using uint_small [of "2 * ?s + 15"] b by simp
    with d z show ?thesis by (simp add: quo_nonneg [OF nn])
  qed
  with d False show ?thesis by simp
qed

theorem NewCachePool_DeleteExpiry_witness:
  "NewCachePool ''rowcache'' exampleConfig 30000000000 0 =
     Inr \<lparr>name = ''rowcache'', pool = None, rowCacheConfig = exampleConfig, capacity = 974,
          port = ''11211'', idleTimeout = 0, DeleteExpiry = 75\<rparr>
   \<and> Binary exampleConfig \<noteq> [] \<and> 0 \<le> sint (30000000000 :: 64 word)
   \<and> sint (30000000000 :: 64 word) div Second = 30
   \<and> uint (75 :: 64 word) = 2 * 30 + 15"
  using NewCachePool_DeleteExpiry [OF example_pool_30s] example_pool_30s
  by (simp add: exampleConfig_def Second_def)

section \<open>Query rewriter: auxiliary facts\<close>

lemma WriteString_nil: "WriteString [] buf = buf"
  by (simp add: WriteString_def)

lemma WriteString_WriteString: "WriteString b (WriteString a buf) = WriteString (a @ b) buf"
  by (simp add: WriteString_def)

lemma Format_seq_impossible:
  assumes "\<And>n buf. n \<in> set ns \<Longrightarrow>
      Myprintf_v UseFormatImpossible n buf = Format NoFormatter (impossible n) buf"
  shows "Format_seq UseFormatImpossible p s ns buf = Format_seq NoFormatter p s (map impossible ns) buf"
  using assms by (induction ns arbitrary: p buf) simp_all

lemma Format_opt_impossible:
  assumes "\<And>n buf. n \<in> set_option w \<Longrightarrow>
      Myprintf_v UseFormatImpossible n buf = Format NoFormatter (impossible n) buf"
  shows "Format_opt UseFormatImpossible w buf = Format_opt NoFormatter (map_option impossible w) buf"
  using assms by (cases w) simp_all

lemma Myprintf_v_impossible:
  "Myprintf_v UseFormatImpossible n buf = Format NoFormatter (impossible n) buf"
proof (induction n arbitrary: buf)
  case (Select c d es fr w g h ob l lk)
  have es: "\<And>p s b. Format_seq UseFormatImpossible p s es b
             = Format_seq NoFormatter p s (map impossible es) b"
    by (rule Format_seq_impossible) (rule Select.IH(1))
  have fr: "\<And>p s b. Format_seq UseFormatImpossible p s fr b
             = Format_seq NoFormatter p s (map impossible fr) b"
    by (rule Format_seq_impossible) (rule Select.IH(2))
  show ?case
    by (simp add: Let_def es fr WriteString_nil WriteString_WriteString impossibleWhere_def)
next
  case (JoinTableExpr le j re on)
  then show ?case by (simp add: Let_def WriteString_WriteString)
next
  case (Union_stmt t l r)
  then show ?case by (simp add: Let_def)
next
  case (AliasedTableExpr e a hs)
  then show ?case by (cases hs; cases a) (simp_all add: Let_def)
next
  case (IndexHints t ns)
  show ?case by simp
next
  case (LimitNode off rc)
  then show ?case by (cases off) (simp_all add: Let_def)
next
  case (WhereNode t e)
  then show ?case by simp
next
  case (ValArg a)
  show ?case by simp
next
  case (Raw s)
  show ?case by simp
next
  case (Node k ps)
  have "\<And>p s b. Format_seq UseFormatImpossible p s ps b
             = Format_seq NoFormatter p s (map impossible ps) b"
    by (rule Format_seq_impossible) (rule Node.IH)
  then show ?case by simp
qed

lemma subnodes_impossible:
  "n \<in> set (subnodes (impossible s)) \<Longrightarrow> isImpossible n"
proof (induction s arbitrary: n)
  case (Select c d es fr w g h ob l lk)
  from Select.prems Select.IH(1,2) show ?case
    by (auto simp: isImpossible_def impossibleWhere_def)
next
  case (JoinTableExpr le j re on)
  then show ?case by (auto simp: isImpossible_def split: if_splits)
next
  case (AliasedTableExpr e a hs)
  then show ?case by (cases hs) (auto simp: isImpossible_def)
next
  case (LimitNode off rc)
  then show ?case by (cases off) (auto simp: isImpossible_def)
qed (auto simp: isImpossible_def)

lemma bindLocations_WriteString: "bindLocations (WriteString s buf) = bindLocations buf"
  by (simp add: WriteString_def)

lemma bindLocations_WriteArg:
  "bindLocations (WriteArg a buf) = bindLocations buf @ [(length (Buffer buf), length a)]"
  by (simp add: WriteArg_def WriteString_def)

lemma Buffer_WriteString: "Buffer (WriteString s buf) = Buffer buf @ s"
  by (simp add: WriteString_def)

lemma Buffer_WriteArg: "Buffer (WriteArg a buf) = Buffer buf @ a"
  by (simp add: WriteArg_def WriteString_def)

lemma Format_seq_args:
  assumes "\<And>n buf. n \<in> set ns \<Longrightarrow>
      length (bindLocations (Format NoFormatter n buf)) = length (bindLocations buf) + argCount n"
  shows "length (bindLocations (Format_seq NoFormatter p s ns buf))
           = length (bindLocations buf) + sum_list (map argCount ns)"
  using assms by (induction ns arbitrary: p buf) (simp_all add: bindLocations_WriteString)

lemma Format_opt_args:
  assumes "\<And>n buf. n \<in> set_option w \<Longrightarrow>
      length (bindLocations (Format NoFormatter n buf)) = length (bindLocations buf) + argCount n"
  shows "length (bindLocations (Format_opt NoFormatter w buf))
           = length (bindLocations buf) + (case w of None \<Rightarrow> 0 | Some n \<Rightarrow> argCount n)"
  using assms by (cases w) simp_all

lemma argCount_concat:
  "length (filter is_ValArg (concat (map subnodes ns))) = sum_list (map argCount ns)"
  by (induction ns) (simp_all add: argCount_def)

lemma Format_args:
  "length (bindLocations (Format NoFormatter n buf)) = length (bindLocations buf) + argCount n"
proof (induction n arbitrary: buf)
  case (Select c d es fr w g h ob l lk)
  have seq: "\<And>p s b. length (bindLocations (Format_seq NoFormatter p s es b))
               = length (bindLocations b) + sum_list (map argCount es)"
    "\<And>p s b. length (bindLocations (Format_seq NoFormatter p s fr b))
               = length (bindLocations b) + sum_list (map argCount fr)"
    "\<And>p s b. length (bindLocations (Format_seq NoFormatter p s g b))
               = length (bindLocations b) + sum_list (map argCount g)"
    "\<And>p s b. length (bindLocations (Format_seq NoFormatter p s ob b))
               = length (bindLocations b) + sum_list (map argCount ob)"
    by (rule Format_seq_args, rule Select.IH, assumption)+
  have opt: "\<And>b. length (bindLocations (Format_opt NoFormatter w b))
               = length (bindLocations b) + (case w of None \<Rightarrow> 0 | Some n \<Rightarrow> argCount n)"
    "\<And>b. length (bindLocations (Format_opt NoFormatter h b))
               = length (bindLocations b) + (case h of None \<Rightarrow> 0 | Some n \<Rightarrow> argCount n)"
    "\<And>b. length (bindLocations (Format_opt NoFormatter l b))
               = length (bindLocations b) + (case l of None \<Rightarrow> 0 | Some n \<Rightarrow> argCount n)"
    by (rule Format_opt_args, rule Select.IH, assumption)+
  have a: "argCount (Select c d es fr w g h ob l lk) =
      sum_list (map argCount es) + sum_list (map argCount fr)
      + (case w of None \<Rightarrow> 0 | Some n \<Rightarrow> argCount n) + sum_list (map argCount g)
      + (case h of None \<Rightarrow> 0 | Some n \<Rightarrow> argCount n) + sum_list (map argCount ob)
      + (case l of None \<Rightarrow> 0 | Some n \<Rightarrow> argCount n)"
    by (simp add: argCount_def [of "Select c d es fr w g h ob l lk"] argCount_concat)
      (simp add: argCount_def split: option.splits)
  show ?case
    unfolding a by (simp add: Let_def bindLocations_WriteString seq opt)
next
  case (JoinTableExpr le j re on)
  then show ?case
    by (cases on) (simp_all add: Let_def bindLocations_WriteString argCount_def)
next
  case (Union_stmt t l r)
  then show ?case by (simp add: Let_def bindLocations_WriteString argCount_def)
next
  case (AliasedTableExpr e a hs)
  then show ?case
    by (cases hs; cases a) (simp_all add: Let_def bindLocations_WriteString argCount_def)
next
  case (IndexHints t ns)
  show ?case by (simp add: bindLocations_WriteString argCount_def)
next
  case (LimitNode off rc)
  then show ?case
    by (cases off) (simp_all add: Let_def bindLocations_WriteString argCount_def)
next
  case (WhereNode t e)
  then show ?case by (simp add: bindLocations_WriteString argCount_def)
next
  case (ValArg a)
  show ?case by (simp add: bindLocations_WriteArg argCount_def)
next
  case (Raw s)
  show ?case by (simp add: bindLocations_WriteString argCount_def)
next
  case (Node k ps)
  have "argCount (Node k ps) = sum_list (map argCount ps)"
    by (simp add: argCount_def [of "Node k ps"] argCount_concat)
  with Format_seq_args [OF Node.IH] show ?case by simp
qed

lemma HasBindVars_Format:
  "HasBindVars (Format NoFormatter n NewTrackedBuffer) = (\<exists>a. ValArg a \<in> set (subnodes n))"
proof -
  have "HasBindVars (Format NoFormatter n NewTrackedBuffer)
          = (0 < length (bindLocations (Format NoFormatter n NewTrackedBuffer)))"
    by (simp add: HasBindVars_def)
  also have "\<dots> = (0 < argCount n)"
    unfolding Format_args by (simp add: NewTrackedBuffer_def)
  also have "\<dots> = (\<exists>x \<in> set (subnodes n). is_ValArg x)"
    by (simp add: argCount_def filter_empty_conv)
  also have "\<dots> = (\<exists>a. ValArg a \<in> set (subnodes n))"
  proof
    assume "\<exists>x \<in> set (subnodes n). is_ValArg x"
    then obtain x where x: "x \<in> set (subnodes n)" "is_ValArg x" by blast
    have "\<exists>a. x = ValArg a" using x(2) by (cases x) simp_all
    then obtain a where "x = ValArg a" by blast
    with x show "\<exists>a. ValArg a \<in> set (subnodes n)" by blast
  next
    assume "\<exists>a. ValArg a \<in> set (subnodes n)"
    then obtain a where "ValArg a \<in> set (subnodes n)" by blast
    moreover have "is_ValArg (ValArg a)" by simp
    ultimately show "\<exists>x \<in> set (subnodes n). is_ValArg x" by blast
  qed
  finally show ?thesis .
qed

lemma FormatImpossible_impossible:
  "FormatImpossible n buf = Format NoFormatter (impossible n) buf"
  using Myprintf_v_impossible [of n buf] by simp

lemma Format_Select_split:
  "Format NoFormatter (Select c d es fr w g h ob l lk) buf =
     WriteString lk (Format_opt NoFormatter l
       (Format NoFormatter (Select c d es fr w g h ob None []) buf))"
  by (simp add: Let_def WriteString_nil)

lemma Format_opt_execLimit:
  "Format_opt NoFormatter (Some execLimit) buf = WriteArg '':#maxLimit'' (WriteString '' limit '' buf)"
  by (simp add: execLimit_def)

lemma GenerateSelectLimitQuery_frame: "snd (GenerateSelectLimitQuery selStmt) = selStmt"
  by (cases selStmt) (simp_all add: GenerateSelectLimitQuery_def Let_def)

lemma GenerateSelectSubquery_frame: "snd (GenerateSelectSubquery sel tableInfo index) = sel"
proof (cases sel)
  case (Select c d es fr w g h ob l lk)
  show ?thesis
  proof (cases fr)
    case Nil
    with Select show ?thesis by (simp add: GenerateSelectSubquery_def)
  next
    case (Cons t0 rest)
    with Select show ?thesis
      by (cases t0) (simp_all add: GenerateSelectSubquery_def Let_def)
  qed
qed (simp_all add: GenerateSelectSubquery_def)

lemmas print_simps =
  GenerateFullQuery_def GenerateFieldQuery_def ParsedQuery_of_def NewTrackedBuffer_def
  WriteString_def WriteArg_def HasBindVars_def Let_def AST_LEFT_JOIN_def AST_RIGHT_JOIN_def
  impossibleWhere_def execLimit_def

lemma Format_seq_appends:
  assumes "\<And>n. n \<in> set ns \<Longrightarrow> \<exists>s. \<forall>buf. Buffer (Format NoFormatter n buf) = Buffer buf @ s"
  shows "\<exists>s. \<forall>buf. Buffer (Format_seq NoFormatter pre sep ns buf) = Buffer buf @ s"
  using assms
proof (induction ns arbitrary: pre)
  case Nil
  show ?case by simp
next
  case (Cons n ns)
  from Cons.prems [of n] obtain s1 where
    s1: "\<And>buf. Buffer (Format NoFormatter n buf) = Buffer buf @ s1" by auto
  from Cons.IH [of sep] Cons.prems obtain s2 where
    s2: "\<And>buf. Buffer (Format_seq NoFormatter sep sep ns buf) = Buffer buf @ s2" by auto
  have "\<forall>buf. Buffer (Format_seq NoFormatter pre sep (n # ns) buf) = Buffer buf @ (pre @ s1 @ s2)"
    by (simp add: s1 s2 Buffer_WriteString)
  then show ?case by blast
qed

lemma Format_opt_appends:
  assumes "\<And>n. n \<in> set_option w \<Longrightarrow> \<exists>s. \<forall>buf. Buffer (Format NoFormatter n buf) = Buffer buf @ s"
  shows "\<exists>s. \<forall>buf. Buffer (Format_opt NoFormatter w buf) = Buffer buf @ s"
proof (cases w)
  case None
  then show ?thesis by simp
next
  case (Some n)
  with assms [of n] show ?thesis by simp
qed

lemma Format_appends: "\<exists>s. \<forall>buf. Buffer (Format NoFormatter n buf) = Buffer buf @ s"
proof (induction n)
  case (Select c d es fr w g h ob l lk)
  from Format_seq_appends [of es "[]" "'', ''"] Select.IH(1) obtain s1 where
    s1: "\<And>buf. Buffer (Format_seq NoFormatter [] '', '' es buf) = Buffer buf @ s1" by blast
  from Format_seq_appends [of fr "[]" "'', ''"] Select.IH(2) obtain s2 where
    s2: "\<And>buf. Buffer (Format_seq NoFormatter [] '', '' fr buf) = Buffer buf @ s2" by blast
  from Format_opt_appends [of w] Select.IH(3) obtain s3 where
    s3: "\<And>buf. Buffer (Format_opt NoFormatter w buf) = Buffer buf @ s3" by blast
  from Format_seq_appends [of g "'' group by ''" "'', ''"] Select.IH(4) obtain s4 where
    s4: "\<And>buf. Buffer (Format_seq NoFormatter '' group by '' '', '' g buf) = Buffer buf @ s4" by blast
  from Format_opt_appends [of h] Select.IH(5) obtain s5 where
    s5: "\<And>buf. Buffer (Format_opt NoFormatter h buf) = Buffer buf @ s5" by blast
  from Format_seq_appends [of ob "'' order by ''" "'', ''"] Select.IH(6) obtain s6 where
    s6: "\<And>buf. Buffer (Format_seq NoFormatter '' order by '' '', '' ob buf) = Buffer buf @ s6" by blast
  from Format_opt_appends [of l] Select.IH(7) obtain s7 where
    s7: "\<And>buf. Buffer (Format_opt NoFormatter l buf) = Buffer buf @ s7" by blast
  have "\<forall>buf. Buffer (Format NoFormatter (Select c d es fr w g h ob l lk) buf) =
      Buffer buf @ (''select '' @ concat (map (\<lambda>x. x @ '' '') c) @ d @ s1 @ '' from '' @ s2 @ s3
                    @ s4 @ s5 @ s6 @ s7 @ lk)"
    by (simp add: Let_def s1 s2 s3 s4 s5 s6 s7 Buffer_WriteString)
  then show ?case by blast
next
  case (Union_stmt t l r)
  from Union_stmt.IH obtain s1 s2 where
    s: "\<And>buf. Buffer (Format NoFormatter l buf) = Buffer buf @ s1"
       "\<And>buf. Buffer (Format NoFormatter r buf) = Buffer buf @ s2" by blast
  have "\<forall>buf. Buffer (Format NoFormatter (Union_stmt t l r) buf) = Buffer buf @ (s1 @ '' '' @ t @ '' '' @ s2)"
    by (simp add: Let_def s Buffer_WriteString)
  then show ?case by blast
next
  case (JoinTableExpr le j re on)
  from JoinTableExpr.IH(1,2) obtain s1 s2 where
    s: "\<And>buf. Buffer (Format NoFormatter le buf) = Buffer buf @ s1"
       "\<And>buf. Buffer (Format NoFormatter re buf) = Buffer buf @ s2" by blast
  show ?case
  proof (cases on)
    case None
    have "\<forall>buf. Buffer (Format NoFormatter (JoinTableExpr le j re on) buf)
            = Buffer buf @ (s1 @ '' '' @ j @ '' '' @ s2)"
      by (simp add: None Let_def s Buffer_WriteString)
    then show ?thesis by blast
  next
    case (Some b)
    with JoinTableExpr.IH(3) [of b] obtain s3 where
      s3: "\<And>buf. Buffer (Format NoFormatter b buf) = Buffer buf @ s3" by auto
    have "\<forall>buf. Buffer (Format NoFormatter (JoinTableExpr le j re on) buf)
            = Buffer buf @ (s1 @ '' '' @ j @ '' '' @ s2 @ '' on '' @ s3)"
      by (simp add: Some Let_def s s3 Buffer_WriteString)
    then show ?thesis by blast
  qed
next
  case (AliasedTableExpr e a hs)
  from AliasedTableExpr.IH(1) obtain s1 where
    s1: "\<And>buf. Buffer (Format NoFormatter e buf) = Buffer buf @ s1" by blast
  from Format_opt_appends [of hs] AliasedTableExpr.IH(2) obtain s2 where
    s2: "\<And>buf. Buffer (Format_opt NoFormatter hs buf) = Buffer buf @ s2" by blast
  have e: "\<And>buf. (case hs of None \<Rightarrow> buf | Some hn \<Rightarrow> Myprintf_v NoFormatter hn buf)
             = Format_opt NoFormatter hs buf"
    by (cases hs) simp_all
  have "\<forall>buf. Buffer (Format NoFormatter (AliasedTableExpr e a hs) buf)
          = Buffer buf @ (s1 @ (case a of None \<Rightarrow> [] | Some n \<Rightarrow> '' as '' @ n) @ s2)"
    by (cases a) (simp_all add: Let_def e s1 s2 Buffer_WriteString)
  then show ?case by blast
next
  case (IndexHints t ns)
  show ?case by (simp add: Buffer_WriteString)
next
  case (LimitNode off rc)
  from LimitNode.IH(2) obtain s2 where
    s2: "\<And>buf. Buffer (Format NoFormatter rc buf) = Buffer buf @ s2" by blast
  show ?case
  proof (cases off)
    case None
    have "\<forall>buf. Buffer (Format NoFormatter (LimitNode off rc) buf) = Buffer buf @ ('' limit '' @ s2)"
      by (simp add: None Let_def s2 Buffer_WriteString)
    then show ?thesis by blast
  next
    case (Some x)
    with LimitNode.IH(1) [of x] obtain s1 where
      s1: "\<And>buf. Buffer (Format NoFormatter x buf) = Buffer buf @ s1" by auto
    have "\<forall>buf. Buffer (Format NoFormatter (LimitNode off rc) buf)
            = Buffer buf @ ('' limit '' @ s1 @ '', '' @ s2)"
      by (simp add: Some Let_def s1 s2 Buffer_WriteString)
    then show ?thesis by blast
  qed
next
  case (WhereNode t e)
  from WhereNode.IH obtain s1 where
    s1: "\<And>buf. Buffer (Format NoFormatter e buf) = Buffer buf @ s1" by blast
  have "\<forall>buf. Buffer (Format NoFormatter (WhereNode t e) buf) = Buffer buf @ ('' '' @ t @ '' '' @ s1)"
    by (simp add: s1 Buffer_WriteString)
  then show ?case by blast
next
  case (ValArg a)
  show ?case by (simp add: Buffer_WriteArg)
next
  case (Raw s)
  show ?case by (simp add: Buffer_WriteString)
next
  case (Node k ps)
  from Format_seq_appends [of ps "[]" "[]"] Node.IH show ?case by simp
qed

lemma Buffer_Format:
  "Buffer (Format NoFormatter n buf) = Buffer buf @ Query (GenerateFullQuery n)"
proof -
  from Format_appends [of n] obtain s where
    s: "\<And>buf. Buffer (Format NoFormatter n buf) = Buffer buf @ s" by blast
  have "Query (GenerateFullQuery n) = s"
    by (simp add: GenerateFullQuery_def ParsedQuery_of_def s NewTrackedBuffer_def)
  with s show ?thesis by simp
qed

lemma Union_Query:
  "Query (GenerateFullQuery (Union_stmt t l r))
     = Query (GenerateFullQuery l) @ '' '' @ t @ '' '' @ Query (GenerateFullQuery r)"
proof -
  have "Query (GenerateFullQuery (Union_stmt t l r))
          = Buffer (Format NoFormatter (Union_stmt t l r) NewTrackedBuffer)"
    by (simp add: GenerateFullQuery_def ParsedQuery_of_def)
  also have "\<dots> = Query (GenerateFullQuery l) @ '' '' @ t @ '' '' @ Query (GenerateFullQuery r)"
    by (simp add: Let_def Buffer_Format Buffer_WriteString NewTrackedBuffer_def)
  finally show ?thesis .
qed

lemma GenerateFieldQuery_cases:
  "GenerateFieldQuery statement =
     (if \<exists>a. ValArg a \<in> set (subnodes (impossible statement)) then None
      else Some \<lparr>Query = Query (GenerateFullQuery (impossible statement)), BindLocations = []\<rparr>)"
proof -
  have h: "HasBindVars (Format NoFormatter (impossible statement) NewTrackedBuffer)
             = (\<exists>a. ValArg a \<in> set (subnodes (impossible statement)))"
    by (rule HasBindVars_Format)
  show ?thesis
  proof (cases "\<exists>a. ValArg a \<in> set (subnodes (impossible statement))")
    case True
    with h show ?thesis
      by (simp add: GenerateFieldQuery_def FormatImpossible_impossible Let_def)
  next
    case False
    with h have "bindLocations (Format NoFormatter (impossible statement) NewTrackedBuffer) = []"
      by (simp add: HasBindVars_def)
    with False h show ?thesis
      by (simp add: GenerateFieldQuery_def FormatImpossible_impossible Let_def
          GenerateFullQuery_def ParsedQuery_of_def)
  qed
qed

section \<open>Query rewriter and analyser: the claims\<close>

text \<open>
  Claim C5. For every statement, the field query is null exactly when the rewritten
  statement still has a bind variable, and otherwise it is the canonical reprint of the
  rewritten statement \<open>impossible statement\<close>; in that statement every SELECT has the WHERE
  clause \<open>where 1 != 1\<close> and every LEFT or RIGHT join has the clause \<open>on 1 != 1\<close>
  (\<open>isImpossible\<close> holds of each of its nodes).
\<close>

theorem GenerateFieldQuery_impossible:
  "GenerateFieldQuery statement =
     (if \<exists>a. ValArg a \<in> set (subnodes (impossible statement)) then None
      else Some (GenerateFullQuery (impossible statement)))
   \<and> (\<forall>n \<in> set (subnodes (impossible statement)). isImpossible n)"
  using subnodes_impossible [of _ statement] HasBindVars_Format [of "impossible statement"]
  by (simp add: GenerateFieldQuery_def GenerateFullQuery_def FormatImpossible_impossible Let_def)

theorem GenerateFieldQuery_impossible_witness:
  "GenerateFieldQuery exampleJoin =
     Some \<lparr>Query = ''select a from t left join u on 1 != 1 where 1 != 1'', BindLocations = []\<rparr>
   \<and> GenerateFieldQuery exampleBind = None
   \<and> isImpossible (impossible exampleJoin)"
proof -
  from GenerateFieldQuery_impossible [of exampleJoin]
  have 1: "GenerateFieldQuery exampleJoin =
     Some \<lparr>Query = ''select a from t left join u on 1 != 1 where 1 != 1'', BindLocations = []\<rparr>"
    by (simp add: exampleJoin_def print_simps)
  from GenerateFieldQuery_impossible [of exampleBind]
  have 2: "GenerateFieldQuery exampleBind = None"
    by (simp add: exampleBind_def print_simps)
  from GenerateFieldQuery_impossible [of exampleJoin]
  have 3: "isImpossible (impossible exampleJoin)"
    by (simp add: exampleJoin_def)
  from 1 2 3 show ?thesis by simp
qed

text \<open>
  Claim C8, as stated, fails in one part: \<open>FieldQuery\<close> is not always populated. For the
  statement \<open>select a from t where idx_col = 7 union select :v from t\<close> the rewritten
  statement still has the bind variable \<open>:v\<close>, \<open>GenerateFieldQuery\<close> returns nil, and the
  plan's \<open>FieldQuery\<close> is nil, while its \<open>FullQuery\<close> is the reprint.
\<close>

theorem union_FieldQuery_nil:
  "map_sum id FieldQuery
     (analyzeSQL exampleAnalysers (Union_stmt ''union'' exampleSelect exampleBind) Map.empty)
     = Inr None
   \<and> map_sum id (map_option Query \<circ> FullQuery)
     (analyzeSQL exampleAnalysers (Union_stmt ''union'' exampleSelect exampleBind) Map.empty)
     = Inr (Some ''select a from t where idx_col = 7 union select :v from t'')"
  by (simp add: exampleSelect_def exampleBind_def zeroPlan_def print_simps)

text \<open>
  Claim C8, amended. For every UNION statement \<open>analyzeSQL\<close> returns, without error and
  without consulting the analysers or the table getter, the plan with \<open>PlanId\<close>
  pass-select and \<open>Reason\<close> select and every field other than the two queries at its zero
  value. \<open>FullQuery\<close> is always populated: its text is the reprint of the left side, the
  union keyword and the reprint of the right side, and it records one bind location for
  each bind variable of the two sides. \<open>FieldQuery\<close> is nil when the rewritten left or
  right side still has a bind variable; otherwise it is populated: its text is the field
  query text of the left side, the union keyword and the field query text of the right
  side, with no bind location. A statement of a type that the switch does not list yields
  the error \<open>invalid SQL\<close>.
\<close>

theorem analyzeSQL_union_plan:
  "analyzeSQL an (Union_stmt t l r) getTable =
     Inr \<lparr>PlanId = PLAN_PASS_SELECT, Reason = REASON_SELECT, TableName = [],
          FieldQuery =
            (if \<exists>a. ValArg a \<in> set (subnodes (impossible l)) \<union> set (subnodes (impossible r))
             then None
             else Some \<lparr>Query = Query (GenerateFullQuery (impossible l)) @ '' '' @ t @ '' ''
                                  @ Query (GenerateFullQuery (impossible r)),
                         BindLocations = []\<rparr>),
          FullQuery = Some (GenerateFullQuery (Union_stmt t l r)),
          OuterQuery = None, Subquery = None, IndexUsed = [], ColumnNumbers = [], PKValues = [],
          PlanLimit = Null, SecondaryPKValues = [], SubqueryPKColumns = [], SetKey = [],
          SetValue = Null\<rparr>
   \<and> Query (GenerateFullQuery (Union_stmt t l r))
       = Query (GenerateFullQuery l) @ '' '' @ t @ '' '' @ Query (GenerateFullQuery r)
   \<and> length (BindLocations (GenerateFullQuery (Union_stmt t l r))) = argCount l + argCount r
   \<and> analyzeSQL an (Node (GoType k) ps) getTable = Inl (Err ''invalid SQL'')"
proof -
  have a: "(\<exists>a. ValArg a \<in> set (subnodes (impossible (Union_stmt t l r))))
             = (\<exists>a. ValArg a \<in> set (subnodes (impossible l)) \<union> set (subnodes (impossible r)))"
    by auto
  have f: "GenerateFieldQuery (Union_stmt t l r) =
            (if \<exists>a. ValArg a \<in> set (subnodes (impossible l)) \<union> set (subnodes (impossible r))
             then None
             else Some \<lparr>Query = Query (GenerateFullQuery (impossible l)) @ '' '' @ t @ '' ''
                                  @ Query (GenerateFullQuery (impossible r)),
                         BindLocations = []\<rparr>)"
    unfolding GenerateFieldQuery_cases [of "Union_stmt t l r"] a
    by (simp add: Union_Query)
  have c: "length (BindLocations (GenerateFullQuery (Union_stmt t l r))) = argCount l + argCount r"
    using Format_args [of "Union_stmt t l r" NewTrackedBuffer]
    by (simp add: GenerateFullQuery_def ParsedQuery_of_def NewTrackedBuffer_def argCount_def)
  from f c Union_Query [of t l r] show ?thesis by (simp add: zeroPlan_def)
qed

theorem analyzeSQL_union_plan_witness:
  "analyzeSQL exampleAnalysers (Union_stmt ''union'' exampleSelect exampleSelect) Map.empty =
     Inr \<lparr>PlanId = PLAN_PASS_SELECT, Reason = REASON_SELECT, TableName = [],
          FieldQuery = Some \<lparr>Query = ''select a from t where 1 != 1 union select a from t where 1 != 1'',
                              BindLocations = []\<rparr>,
          FullQuery = Some \<lparr>Query = ''select a from t where idx_col = 7 union select a from t where idx_col = 7'',
                             BindLocations = []\<rparr>,
          OuterQuery = None, Subquery = None, IndexUsed = [], ColumnNumbers = [], PKValues = [],
          PlanLimit = Null, SecondaryPKValues = [], SubqueryPKColumns = [], SetKey = [],
          SetValue = Null\<rparr>
   \<and> analyzeSQL exampleAnalysers (Node (GoType ''Replace'') []) Map.empty = Inl (Err ''invalid SQL'')"
  using analyzeSQL_union_plan [of exampleAnalysers "''union''" exampleSelect exampleSelect Map.empty
      "''Replace''" "[]"]
  by (simp add: exampleSelect_def print_simps)

text \<open>
  Claim C9. For every SELECT statement, \<open>GenerateSelectLimitQuery\<close> emits the reprint of
  the statement with the limit \<open>:#maxLimit\<close> in the place of its LIMIT clause when the
  statement has none, and the plain reprint of the statement, with its own limit, when it
  has one. The reprint with the injected limit is the text of the statement up to its lock
  clause, then \<open>limit :#maxLimit\<close> with the bind location of \<open>:#maxLimit\<close> recorded, then
  the lock clause; without a lock clause the limit is the end of the text.
\<close>

theorem GenerateSelectLimitQuery_result:
  "fst (GenerateSelectLimitQuery (Select c d es fr w g h ob l lk)) =
     (case l of
        None \<Rightarrow> GenerateFullQuery (Select c d es fr w g h ob (Some execLimit) lk)
      | Some x \<Rightarrow> GenerateFullQuery (Select c d es fr w g h ob (Some x) lk))
   \<and> Query (GenerateFullQuery (Select c d es fr w g h ob (Some execLimit) lk)) =
       Query (GenerateFullQuery (Select c d es fr w g h ob None [])) @ '' limit :#maxLimit'' @ lk
   \<and> BindLocations (GenerateFullQuery (Select c d es fr w g h ob (Some execLimit) lk)) =
       BindLocations (GenerateFullQuery (Select c d es fr w g h ob None []))
         @ [(length (Query (GenerateFullQuery (Select c d es fr w g h ob None []))) + 7, 10)]
   \<and> Query (GenerateFullQuery (Select c d es fr w g h ob None lk)) =
       Query (GenerateFullQuery (Select c d es fr w g h ob None [])) @ lk"
proof -
  have 1: "fst (GenerateSelectLimitQuery (Select c d es fr w g h ob l lk)) =
     (case l of
        None \<Rightarrow> GenerateFullQuery (Select c d es fr w g h ob (Some execLimit) lk)
      | Some x \<Rightarrow> GenerateFullQuery (Select c d es fr w g h ob (Some x) lk))"
    by (cases l) (simp_all add: GenerateSelectLimitQuery_def GenerateFullQuery_def Let_def)
  have 2: "Query (GenerateFullQuery (Select c d es fr w g h ob (Some execLimit) lk)) =
       Query (GenerateFullQuery (Select c d es fr w g h ob None [])) @ '' limit :#maxLimit'' @ lk"
    unfolding GenerateFullQuery_def Format_Select_split [of c d es fr w g h ob "Some execLimit" lk]
      Format_opt_execLimit
    by (simp add: ParsedQuery_of_def Buffer_WriteString Buffer_WriteArg)
  have 3: "BindLocations (GenerateFullQuery (Select c d es fr w g h ob (Some execLimit) lk)) =
       BindLocations (GenerateFullQuery (Select c d es fr w g h ob None []))
         @ [(length (Query (GenerateFullQuery (Select c d es fr w g h ob None []))) + 7, 10)]"
    unfolding GenerateFullQuery_def Format_Select_split [of c d es fr w g h ob "Some execLimit" lk]
      Format_opt_execLimit
    by (simp add: ParsedQuery_of_def Buffer_WriteString bindLocations_WriteString
        bindLocations_WriteArg)
  have 4: "Query (GenerateFullQuery (Select c d es fr w g h ob None lk)) =
       Query (GenerateFullQuery (Select c d es fr w g h ob None [])) @ lk"
    unfolding GenerateFullQuery_def Format_Select_split [of c d es fr w g h ob None lk]
    by (simp add: ParsedQuery_of_def Buffer_WriteString)
  from 1 2 3 4 show ?thesis by blast
qed

theorem GenerateSelectLimitQuery_result_witness:
  "fst (GenerateSelectLimitQuery exampleSelect) =
     \<lparr>Query = ''select a from t where idx_col = 7 limit :#maxLimit'', BindLocations = [(length ''select a from t where idx_col = 7 limit '', length '':#maxLimit'')]\<rparr>
   \<and> fst (GenerateSelectLimitQuery exampleJoin) =
     \<lparr>Query = ''select a from t left join u on t.id = u.id where x = :x limit 5'',
      BindLocations = [(length ''select a from t left join u on t.id = u.id where x = '', length '':x'')]\<rparr>"
  using GenerateSelectLimitQuery_result [of "[]" "[]" "[Raw ''a'']"
      "[AliasedTableExpr (Raw ''t'') None None]"
      "Some (WhereNode ''where''
          (Node (GoType ''ComparisonExpr'') [Raw ''idx_col'', Raw '' = '', Raw ''7'']))"
      "[]" None "[]" None "[]"]
    GenerateSelectLimitQuery_result [of "[]" "[]" "[Raw ''a'']"
      "[JoinTableExpr (AliasedTableExpr (Raw ''t'') None None) ''left join''
          (AliasedTableExpr (Raw ''u'') None None) (Some (Raw ''t.id = u.id''))]"
      "Some (WhereNode ''where''
          (Node (GoType ''ComparisonExpr'') [Raw ''x'', Raw '' = '', ValArg '':x'']))"
      "[]" None "[]" "Some (LimitNode None (Raw ''5''))" "[]"]
  by (simp add: exampleSelect_def exampleJoin_def print_simps)

text \<open>
  Claim C10. The statement given to \<open>GenerateSelectLimitQuery\<close> and the statement given to
  \<open>GenerateSelectSubquery\<close> are, after the call, what they were before it: the limit put
  in for printing is taken out again, and the saved hints are put back, also when the call
  panics.
\<close>

theorem generators_restore_AST:
  "snd (GenerateSelectLimitQuery selStmt) = selStmt
   \<and> snd (GenerateSelectSubquery sel tableInfo index) = sel"
  by (simp add: GenerateSelectLimitQuery_frame GenerateSelectSubquery_frame)

theorem generators_restore_AST_witness:
  "GenerateSelectLimitQuery exampleSelect =
     (\<lparr>Query = ''select a from t where idx_col = 7 limit :#maxLimit'', BindLocations = [(length ''select a from t where idx_col = 7 limit '', length '':#maxLimit'')]\<rparr>,
      exampleSelect)
   \<and> GenerateSelectSubquery exampleSelect examplePrimary ''idx'' =
     (Inr \<lparr>Query = ''select pk from t use index (idx) where idx_col = 7 limit :#maxLimit'',
           BindLocations = [(length ''select pk from t use index (idx) where idx_col = 7 limit '', length '':#maxLimit'')]\<rparr>,
      exampleSelect)"
proof -
  have 1: "fst (GenerateSelectLimitQuery exampleSelect) =
     \<lparr>Query = ''select a from t where idx_col = 7 limit :#maxLimit'', BindLocations = [(length ''select a from t where idx_col = 7 limit '', length '':#maxLimit'')]\<rparr>"
    by (simp add: GenerateSelectLimitQuery_def exampleSelect_def print_simps)
  have 2: "fst (GenerateSelectSubquery exampleSelect examplePrimary ''idx'') =
     Inr \<lparr>Query = ''select pk from t use index (idx) where idx_col = 7 limit :#maxLimit'',
           BindLocations = [(length ''select pk from t use index (idx) where idx_col = 7 limit '', length '':#maxLimit'')]\<rparr>"
    by (simp add: GenerateSelectSubquery_def GenerateSubquery_def exampleSelect_def
        examplePrimary_def AST_USE_def print_simps)
  from generators_restore_AST [of exampleSelect exampleSelect examplePrimary "''idx''"] 1 2
  show ?thesis by (simp add: prod_eq_iff)
qed

end
